theory Spec2Isabelle
  imports Main
begin

section \<open>Python values\<close>

text \<open>
  The dispatcher of \<^verbatim>\<open>src/mcp/core.py\<close> works on the values that \<^verbatim>\<open>json.loads\<close>
  produces and on whatever a tool returns. \<open>pyval\<close> has the JSON values (\<open>None\<close>,
  booleans, integers, strings, lists, dictionaries with string keys, kept in insertion
  order as Python keeps them) and \<open>PObject\<close>, an instance of a class that defines none of
  \<^verbatim>\<open>__bool__\<close>, \<^verbatim>\<open>__len__\<close>, \<^verbatim>\<open>__eq__\<close>, \<^verbatim>\<open>__str__\<close>: it is truthy,
  hashable, shown by its \<^verbatim>\<open>repr\<close>, and \<^verbatim>\<open>json.dumps\<close> refuses it. It is given by its
  class name and its \<^verbatim>\<open>repr\<close> text. Floating-point numbers are left out. Strings are
  lists of 8-bit characters, read as the code points 0 to 255.
\<close>

datatype pyval =
    PNone
  | PBool bool
  | PInt int
  | PStr string
  | PList "pyval list"
  | PDict "(string \<times> pyval) list"
  | PObject string string

text \<open>Exceptions: \<^verbatim>\<open>run\<close> has one handler for \<^verbatim>\<open>json.JSONDecodeError\<close> and one for
  every other subclass of \<^verbatim>\<open>Exception\<close>; each exception is given with its \<^verbatim>\<open>str(e)\<close>.\<close>

datatype pyexc = JSONDecodeError string | Exception string

text \<open>\<^verbatim>\<open>bool(v)\<close>, as \<^verbatim>\<open>if v:\<close> and \<^verbatim>\<open>not v\<close> use it.\<close>

fun truthy :: "pyval \<Rightarrow> bool" where
  "truthy PNone = False"
| "truthy (PBool b) = b"
| "truthy (PInt i) = (i \<noteq> 0)"
| "truthy (PStr s) = (s \<noteq> [])"
| "truthy (PList xs) = (xs \<noteq> [])"
| "truthy (PDict kvs) = (kvs \<noteq> [])"
| "truthy (PObject c r) = True"

text \<open>\<^verbatim>\<open>type(v).__name__\<close>, which the interpreter's error messages quote.\<close>

fun type_name :: "pyval \<Rightarrow> string" where
  "type_name PNone = ''NoneType''"
| "type_name (PBool b) = ''bool''"
| "type_name (PInt i) = ''int''"
| "type_name (PStr s) = ''str''"
| "type_name (PList xs) = ''list''"
| "type_name (PDict kvs) = ''dict''"
| "type_name (PObject c r) = c"

definition quoted :: "string \<Rightarrow> string" where
  "quoted s = [CHR 0x27] @ s @ [CHR 0x27]"

subsection \<open>String operations\<close>

text \<open>\<^verbatim>\<open>s.startswith(p)\<close>.\<close>

definition startswith :: "string \<Rightarrow> string \<Rightarrow> bool" where
  "startswith s p = (take (length p) s = p)"

text \<open>\<^verbatim>\<open>needle in hay\<close> on strings: \<open>needle\<close> starts at some position of \<open>hay\<close>.\<close>

fun str_contains :: "string \<Rightarrow> string \<Rightarrow> bool" where
  "str_contains needle [] = (needle = [])"
| "str_contains needle (c # cs) = (startswith (c # cs) needle \<or> str_contains needle cs)"

text \<open>\<^verbatim>\<open>s.lower()\<close> on code points below 256: the ASCII capitals and the Latin-1
  capitals \<open>0xC0\<close> to \<open>0xDE\<close> (without the multiplication sign \<open>0xD7\<close>) move up by 32.\<close>

definition lower_char :: "char \<Rightarrow> char" where
  "lower_char c =
     (let n = (of_char c :: nat)
      in if (65 \<le> n \<and> n \<le> 90) \<or> (192 \<le> n \<and> n \<le> 222 \<and> n \<noteq> 215)
         then char_of (n + 32) else c)"

definition lower :: "string \<Rightarrow> string" where
  "lower s = map lower_char s"

text \<open>\<^verbatim>\<open>s.strip()\<close>: the whitespace code points below 256.\<close>

definition is_space :: "char \<Rightarrow> bool" where
  "is_space c =
     (let n = (of_char c :: nat)
      in (9 \<le> n \<and> n \<le> 13) \<or> (28 \<le> n \<and> n \<le> 32) \<or> n = 133 \<or> n = 160)"

definition strip :: "string \<Rightarrow> string" where
  "strip s = rev (dropWhile is_space (rev (dropWhile is_space s)))"

text \<open>\<^verbatim>\<open>s.split(sep)\<close> for a one-character separator.\<close>

fun split_char :: "char \<Rightarrow> string \<Rightarrow> string list" where
  "split_char sep [] = [[]]"
| "split_char sep (c # cs) =
     (if c = sep then [] # split_char sep cs
      else (case split_char sep cs of
              [] \<Rightarrow> [[c]]
            | l # ls \<Rightarrow> (c # l) # ls))"

text \<open>\<^verbatim>\<open>line.split(':', 1)[1]\<close>: what follows the first colon. The source evaluates it
  only on a line that has a colon.\<close>

definition after_colon :: "string \<Rightarrow> string" where
  "after_colon line = tl (dropWhile (\<lambda>c. c \<noteq> CHR '':'') line)"

text \<open>\<^verbatim>\<open>sep.join(parts)\<close>.\<close>

fun join :: "string \<Rightarrow> string list \<Rightarrow> string" where
  "join sep [] = []"
| "join sep [x] = x"
| "join sep (x # y # ys) = x @ sep @ join sep (y # ys)"

subsection \<open>Display text\<close>

text \<open>\<^verbatim>\<open>str(n)\<close> for an integer: decimal digits, a minus sign when negative.\<close>

definition digit_char :: "nat \<Rightarrow> char" where
  "digit_char d = ''0123456789abcdef'' ! d"

fun str_nat :: "nat \<Rightarrow> string" where
  "str_nat n = (if n < 10 then [digit_char n] else str_nat (n div 10) @ [digit_char (n mod 10)])"

declare str_nat.simps [simp del]

definition str_int :: "int \<Rightarrow> string" where
  "str_int i = (if i < 0 then CHR ''-'' # str_nat (nat (- i)) else str_nat (nat i))"

text \<open>\<^verbatim>\<open>repr(s)\<close> for a string: single quotes, unless the string has a single quote
  and no double quote; backslash, the chosen quote, tab, newline and carriage return
  escaped; the other unprintable code points as \<^verbatim>\<open>\xNN\<close>.\<close>

definition repr_char :: "char \<Rightarrow> char \<Rightarrow> string" where
  "repr_char q c =
     (let n = (of_char c :: nat)
      in if c = CHR 0x5C then [CHR 0x5C, CHR 0x5C]
         else if c = q then [CHR 0x5C, q]
         else if n = 9 then [CHR 0x5C, CHR ''t'']
         else if n = 10 then [CHR 0x5C, CHR ''n'']
         else if n = 13 then [CHR 0x5C, CHR ''r'']
         else if n < 32 \<or> (127 \<le> n \<and> n \<le> 160) \<or> n = 173
           then [CHR 0x5C, CHR ''x'', digit_char (n div 16), digit_char (n mod 16)]
         else [c])"

definition repr_str :: "string \<Rightarrow> string" where
  "repr_str s =
     (let q = (if CHR 0x27 \<in> set s \<and> CHR 0x22 \<notin> set s then CHR 0x22 else CHR 0x27)
      in [q] @ concat (map (repr_char q) s) @ [q])"

fun py_repr :: "pyval \<Rightarrow> string" where
  "py_repr PNone = ''None''"
| "py_repr (PBool b) = (if b then ''True'' else ''False'')"
| "py_repr (PInt i) = str_int i"
| "py_repr (PStr s) = repr_str s"
| "py_repr (PList xs) = ''['' @ join '', '' (map py_repr xs) @ '']''"
| "py_repr (PDict kvs) =
     ''{'' @ join '', '' (map (\<lambda>kv. repr_str (fst kv) @ '': '' @ py_repr (snd kv)) kvs) @ ''}''"
| "py_repr (PObject c r) = r"

text \<open>\<^verbatim>\<open>str(v)\<close>: a string is itself, every other value is its \<^verbatim>\<open>repr\<close>.\<close>

definition py_str :: "pyval \<Rightarrow> string" where
  "py_str v = (case v of PStr s \<Rightarrow> s | _ \<Rightarrow> py_repr v)"

subsection \<open>\<^verbatim>\<open>json.dumps\<close>\<close>

text \<open>The log lines of \<^verbatim>\<open>run\<close> format \<^verbatim>\<open>json.dumps(v)\<close> into an f-string, which is
  evaluated whatever the log level is. The text is only logged; what matters is whether
  the call raises: it raises \<^verbatim>\<open>TypeError\<close> at the first object it cannot serialise.
  \<open>unserializable v\<close> is the class name of that object, if there is one.\<close>

fun unserializable :: "pyval \<Rightarrow> string option"
  and unserializable_list :: "pyval list \<Rightarrow> string option"
  and unserializable_items :: "(string \<times> pyval) list \<Rightarrow> string option" where
  "unserializable PNone = None"
| "unserializable (PBool b) = None"
| "unserializable (PInt i) = None"
| "unserializable (PStr s) = None"
| "unserializable (PList xs) = unserializable_list xs"
| "unserializable (PDict kvs) = unserializable_items kvs"
| "unserializable (PObject c r) = Some c"
| "unserializable_list [] = None"
| "unserializable_list (x # xs) =
     (case unserializable x of Some c \<Rightarrow> Some c | None \<Rightarrow> unserializable_list xs)"
| "unserializable_items [] = None"
| "unserializable_items (kv # kvs) =
     (case unserializable (snd kv) of Some c \<Rightarrow> Some c | None \<Rightarrow> unserializable_items kvs)"

definition json_dumps :: "pyval \<Rightarrow> pyexc option" where
  "json_dumps v =
     (case unserializable v of
        None \<Rightarrow> None
      | Some c \<Rightarrow> Some (Exception (''Object of type '' @ c @ '' is not JSON serializable'')))"

section \<open>Schema inference\<close>

text \<open>
  What a parameter's annotation can be: \<^verbatim>\<open>inspect.Parameter.empty\<close>, \<^verbatim>\<open>None\<close>, a
  class, an object with an \<^verbatim>\<open>__origin__\<close> attribute (a generic alias such as
  \<^verbatim>\<open>List[int]\<close>, whose origin is \<^verbatim>\<open>list\<close>, or \<^verbatim>\<open>Optional[int]\<close>, whose origin is
  \<^verbatim>\<open>typing.Union\<close>), a string (a forward reference), some other hashable object, or an
  object that cannot be hashed (a list such as \<^verbatim>\<open>[int]\<close>, or
  \<^verbatim>\<open>Annotated[int, {"unit": "m"}]\<close>, whose hash is that of its metadata), given by the
  class that the interpreter's \<^verbatim>\<open>TypeError\<close> names.
\<close>

datatype pyclass = Cstr | Cint | Cfloat | Cbool | Clist | Cdict | Cother string

datatype annotation =
    Empty
  | NoneAnn
  | Class pyclass
  | Generic pyclass
  | StrAnn string
  | OtherAnn
  | Unhashable string

text \<open>The table \<^verbatim>\<open>type_mapping\<close> of \<^verbatim>\<open>_infer_param_type_from_annotation\<close>.\<close>

fun type_mapping :: "pyclass \<Rightarrow> string option" where
  "type_mapping Cstr = Some ''string''"
| "type_mapping Cint = Some ''integer''"
| "type_mapping Cfloat = Some ''number''"
| "type_mapping Cbool = Some ''boolean''"
| "type_mapping Clist = Some ''array''"
| "type_mapping Cdict = Some ''object''"
| "type_mapping (Cother c) = None"

text \<open>\<^verbatim>\<open>annotation in type_mapping\<close> with \<^verbatim>\<open>type_mapping[annotation]\<close>: the
  annotation is hashed first, which raises \<^verbatim>\<open>TypeError\<close> for an object that cannot be
  hashed; of the others only a class is a key of the table.\<close>

fun mapped_annotation :: "annotation \<Rightarrow> pyexc + string option" where
  "mapped_annotation (Unhashable c) = Inl (Exception (''unhashable type: '' @ quoted c))"
| "mapped_annotation (Class c) = Inr (type_mapping c)"
| "mapped_annotation a = Inr None"

text \<open>\<^verbatim>\<open>hasattr(annotation, '__origin__')\<close> with \<^verbatim>\<open>annotation.__origin__\<close>.\<close>

fun origin :: "annotation \<Rightarrow> pyclass option" where
  "origin (Generic c) = Some c"
| "origin a = None"

text \<open>The \<^verbatim>\<open>if\<close>/\<^verbatim>\<open>elif\<close> chain on the lowered text of a string annotation; \<open>None\<close>
  when the chain falls through.\<close>

definition infer_from_text :: "string \<Rightarrow> string option" where
  "infer_from_text annotation =
     (let lower_annotation = lower annotation
      in if str_contains ''int'' lower_annotation then Some ''integer''
         else if str_contains ''float'' lower_annotation \<or> str_contains ''number'' lower_annotation
           then Some ''number''
         else if str_contains ''bool'' lower_annotation then Some ''boolean''
         else if str_contains ''list'' lower_annotation \<or> str_contains ''array'' lower_annotation
           then Some ''array''
         else if str_contains ''dict'' lower_annotation \<or> str_contains ''object'' lower_annotation
           then Some ''object''
         else None)"

text \<open>\<^verbatim>\<open>_infer_param_type_from_annotation\<close>: the type, or the exception raised.\<close>

definition infer_param_type_from_annotation :: "annotation \<Rightarrow> pyexc + string" where
  "infer_param_type_from_annotation annotation =
     (if annotation = Empty \<or> annotation = NoneAnn then Inr ''string''
      else case mapped_annotation annotation of
        Inl e \<Rightarrow> Inl e
      | Inr (Some t) \<Rightarrow> Inr t
      | Inr None \<Rightarrow>
         (case (case origin annotation of None \<Rightarrow> None | Some c \<Rightarrow> type_mapping c) of
            Some t \<Rightarrow> Inr t
          | None \<Rightarrow>
             (case (case annotation of StrAnn s \<Rightarrow> infer_from_text s | _ \<Rightarrow> None) of
                Some t \<Rightarrow> Inr t
              | None \<Rightarrow> Inr ''string'')))"

section \<open>Tool registry\<close>

text \<open>A Python dictionary keeps its keys in insertion order; \<^verbatim>\<open>d[k] = v\<close> replaces the
  value of a key that is present where it stands and appends a new key at the end.\<close>

fun dict_set :: "('k \<times> 'v) list \<Rightarrow> 'k \<Rightarrow> 'v \<Rightarrow> ('k \<times> 'v) list" where
  "dict_set [] k v = [(k, v)]"
| "dict_set (p # ps) k v = (if fst p = k then (k, v) # ps else p # dict_set ps k v)"

text \<open>\<^verbatim>\<open>d.get(k)\<close> is \<open>map_of d k\<close>; \<^verbatim>\<open>d.get(k, default)\<close>:\<close>

definition dict_get :: "(string \<times> pyval) list \<Rightarrow> string \<Rightarrow> pyval \<Rightarrow> pyval" where
  "dict_get d k dflt = (case map_of d k of None \<Rightarrow> dflt | Some v \<Rightarrow> v)"

text \<open>\<^verbatim>\<open>func(**kwargs)\<close> as a whole: the keyword arguments in, a value or an exception
  out. Tools are taken to be functions of their arguments: they do not touch the server.\<close>

type_synonym callable = "(string \<times> pyval) list \<Rightarrow> pyexc + pyval"

text \<open>The dictionary \<^verbatim>\<open>tool_info\<close> that \<^verbatim>\<open>add\<close> builds, with its five keys (the
  field \<^verbatim>\<open>function\<close> is \<open>tool_function\<close> here). The registry holds such
  dictionaries only: \<^verbatim>\<open>register_tool\<close> called by hand with a dictionary that lacks a
  key is outside the model.\<close>

record tool_info =
  title :: pyval
  description :: pyval
  tool_function :: callable
  required_params :: "string list"
  properties :: "(string \<times> pyval) list"

text \<open>The fields of \<^verbatim>\<open>MCP\<close> that the dispatcher reads or writes. The logger only
  writes to the log and is left out.\<close>

record mcp =
  tools :: "(string \<times> tool_info) list"
  initialized :: bool
  server_name :: string
  server_version :: string

definition MCP_init :: "string \<Rightarrow> string \<Rightarrow> mcp" where
  "MCP_init name version =
     \<lparr>tools = [], initialized = False, server_name = name, server_version = version\<rparr>"

definition register_tool :: "mcp \<Rightarrow> string \<Rightarrow> tool_info \<Rightarrow> mcp" where
  "register_tool self tool_name info = self\<lparr>tools := dict_set (tools self) tool_name info\<rparr>"

definition list_tools :: "mcp \<Rightarrow> string list" where
  "list_tools self = map fst (tools self)"

subsection \<open>The decorator \<^verbatim>\<open>add\<close>\<close>

text \<open>What \<^verbatim>\<open>add\<close> reads of the decorated function: \<^verbatim>\<open>__name__\<close>, \<^verbatim>\<open>__doc__\<close>,
  the parameters of \<^verbatim>\<open>inspect.signature\<close> in declared order (name, annotation, whether
  there is a default), and the function itself. \<^verbatim>\<open>__qualname__\<close> is what the
  interpreter calls the function in its messages; for a function defined inside another,
  as the tools of the tests are, it differs from \<^verbatim>\<open>__name__\<close>.\<close>

record param =
  pname :: string
  annotation :: annotation
  has_default :: bool

record pyfunc =
  fname :: string
  qualname :: string
  doc :: "string option"
  parameters :: "param list"
  call :: callable

text \<open>The loop over the lines of the docstring that looks for a parameter's description.\<close>

fun scan_doc_lines :: "string \<Rightarrow> string \<Rightarrow> string list \<Rightarrow> string" where
  "scan_doc_lines name descr [] = descr"
| "scan_doc_lines name descr (l # ls) =
     (let line = strip l
      in if startswith line (name @ '':'') \<or> startswith line (''- '' @ name @ '':'')
           then strip (after_colon line)
         else if str_contains (''param '' @ name) (lower line)
                 \<or> str_contains (''parameter '' @ name) (lower line)
           then (if CHR '':'' \<in> set line then strip (after_colon line) else descr)
         else scan_doc_lines name descr ls)"

definition param_description :: "string option \<Rightarrow> string \<Rightarrow> string" where
  "param_description d name =
     (case d of
        None \<Rightarrow> ''Parameter '' @ name
      | Some text \<Rightarrow>
          if text = [] then ''Parameter '' @ name
          else scan_doc_lines name (''Parameter '' @ name) (split_char (CHR 0x0A) (strip text)))"

text \<open>The loop over \<^verbatim>\<open>sig.parameters.items()\<close>: it appends to \<^verbatim>\<open>required_params\<close>
  and stores into \<^verbatim>\<open>properties\<close>; an exception of the type inference ends it.\<close>

fun add_params :: "string option \<Rightarrow> param list \<Rightarrow> string list \<times> (string \<times> pyval) list
    \<Rightarrow> pyexc + string list \<times> (string \<times> pyval) list" where
  "add_params d [] acc = Inr acc"
| "add_params d (p # ps) (required, props) =
     (case infer_param_type_from_annotation (annotation p) of
        Inl e \<Rightarrow> Inl e
      | Inr param_type \<Rightarrow>
          add_params d ps
            (if \<not> has_default p then required @ [pname p] else required,
             dict_set props (pname p)
               (PDict [(''type'', PStr param_type),
                       (''description'', PStr (param_description d (pname p)))])))"

text \<open>The dictionary \<^verbatim>\<open>tool_info\<close> that \<^verbatim>\<open>wrapper\<close> builds for a function.\<close>

definition make_tool_info :: "(string \<times> pyval) list \<Rightarrow> pyfunc \<Rightarrow> pyexc + tool_info" where
  "make_tool_info tool_info_dict func =
     (case add_params (doc func) (parameters func) ([], []) of
        Inl e \<Rightarrow> Inl e
      | Inr (required, props) \<Rightarrow>
          Inr \<lparr>title = dict_get tool_info_dict ''Title'' PNone,
               description = dict_get tool_info_dict ''Description'' PNone,
               tool_function = call func,
               required_params = required,
               properties = props\<rparr>)"

text \<open>\<^verbatim>\<open>add(tool_info_dict)(func)\<close>: the server with the tool registered, or the
  exception raised before anything was registered.\<close>

definition add :: "mcp \<Rightarrow> (string \<times> pyval) list \<Rightarrow> pyfunc \<Rightarrow> pyexc + mcp" where
  "add self tool_info_dict func =
     (case make_tool_info tool_info_dict func of
        Inl e \<Rightarrow> Inl e
      | Inr info \<Rightarrow> Inr (register_tool self (fname func) info))"

text \<open>The server after the decorator has run: as it was when the decorator raised.\<close>

definition decorated :: "mcp \<Rightarrow> (string \<times> pyval) list \<Rightarrow> pyfunc \<Rightarrow> mcp" where
  "decorated self tool_info_dict func =
     (case add self tool_info_dict func of Inl e \<Rightarrow> self | Inr self' \<Rightarrow> self')"

subsection \<open>Calling a plain function by keyword\<close>

text \<open>
  \<^verbatim>\<open>func(**kwargs)\<close> for a function declared with ordinary parameters only (no
  \<^verbatim>\<open>*args\<close>, no \<^verbatim>\<open>**kwargs\<close>): a keyword that is no parameter raises \<^verbatim>\<open>TypeError\<close>,
  then a parameter without default that got no value raises \<^verbatim>\<open>TypeError\<close>, then the
  body runs on the bound arguments (it looks its defaults up itself). The messages are
  worded as CPython 3.10 and later word them, with the function's \<^verbatim>\<open>__qualname__\<close>; the
  keyword named is the first of the call, in the order of the dictionary, that is no
  parameter.
\<close>

definition missing_message :: "string list \<Rightarrow> string" where
  "missing_message names =
     (case names of
        [a] \<Rightarrow> ''missing 1 required positional argument: '' @ quoted a
      | [a, b] \<Rightarrow> ''missing 2 required positional arguments: '' @ quoted a @ '' and '' @ quoted b
      | _ \<Rightarrow> ''missing '' @ str_nat (length names) @ '' required positional arguments: ''
               @ join '', '' (map quoted (butlast names)) @ '', and '' @ quoted (last names))"

definition call_def :: "string \<Rightarrow> param list \<Rightarrow> ((string \<rightharpoonup> pyval) \<Rightarrow> pyexc + pyval) \<Rightarrow> callable" where
  "call_def qual ps body kwargs =
     (case filter (\<lambda>k. k \<notin> set (map pname ps)) (map fst kwargs) of
        k # _ \<Rightarrow> Inl (Exception (qual @ ''() got an unexpected keyword argument '' @ quoted k))
      | [] \<Rightarrow>
         (case filter (\<lambda>n. n \<notin> set (map fst kwargs))
                 (map pname (filter (\<lambda>p. \<not> has_default p) ps)) of
            [] \<Rightarrow> body (map_of kwargs)
          | m # ms \<Rightarrow> Inl (Exception (qual @ ''() '' @ missing_message (m # ms)))))"

definition py_def :: "string \<Rightarrow> string \<Rightarrow> string option \<Rightarrow> param list
    \<Rightarrow> ((string \<rightharpoonup> pyval) \<Rightarrow> pyexc + pyval) \<Rightarrow> pyfunc" where
  "py_def name qual d ps body =
     \<lparr>fname = name, qualname = qual, doc = d, parameters = ps, call = call_def qual ps body\<rparr>"

section \<open>Response builder\<close>

text \<open>A response is the dictionary the source builds, with its keys in the order it
  stores them.\<close>

definition success_response :: "pyval \<Rightarrow> pyval \<Rightarrow> pyval" where
  "success_response request_id result =
     PDict ([(''jsonrpc'', PStr ''2.0''), (''result'', result)]
            @ (if request_id \<noteq> PNone then [(''id'', request_id)] else []))"

definition error_response :: "pyval \<Rightarrow> int \<Rightarrow> string \<Rightarrow> pyval \<Rightarrow> pyval" where
  "error_response request_id code message data =
     PDict ([(''jsonrpc'', PStr ''2.0''),
             (''error'', PDict ([(''code'', PInt code), (''message'', PStr message)]
                                @ (if truthy data then [(''data'', data)] else [])))]
            @ (if request_id \<noteq> PNone then [(''id'', request_id)] else []))"

section \<open>Request dispatcher\<close>

subsection \<open>What the interpreter does for \<^verbatim>\<open>run\<close>\<close>

text \<open>\<^verbatim>\<open>v.get(...)\<close> on a value that is no dictionary raises \<^verbatim>\<open>AttributeError\<close>.\<close>

definition no_get :: "pyval \<Rightarrow> pyexc" where
  "no_get v = Exception (quoted (type_name v) @ '' object has no attribute '' @ quoted ''get'')"

text \<open>\<^verbatim>\<open>self.tools.get(key)\<close>: the key is hashed first, and a list or a dictionary
  cannot be hashed; the keys of \<^verbatim>\<open>self.tools\<close> are strings, so only a string finds
  a tool.\<close>

definition tools_get :: "(string \<times> tool_info) list \<Rightarrow> pyval \<Rightarrow> pyexc + tool_info option" where
  "tools_get d key =
     (case key of
        PStr n \<Rightarrow> Inr (map_of d n)
      | PList xs \<Rightarrow> Inl (Exception (''unhashable type: '' @ quoted ''list''))
      | PDict kvs \<Rightarrow> Inl (Exception (''unhashable type: '' @ quoted ''dict''))
      | _ \<Rightarrow> Inr None)"

text \<open>\<^verbatim>\<open>p in container\<close> for a string \<open>p\<close>: a key of a dictionary, an element of a
  list, a substring of a string; any other value raises \<^verbatim>\<open>TypeError\<close>.\<close>

fun py_in :: "string \<Rightarrow> pyval \<Rightarrow> pyexc + bool" where
  "py_in p (PDict kvs) = Inr (p \<in> set (map fst kvs))"
| "py_in p (PList xs) = Inr (PStr p \<in> set xs)"
| "py_in p (PStr s) = Inr (str_contains p s)"
| "py_in p v = Inl (Exception (''argument of type '' @ quoted (type_name v) @ '' is not iterable''))"

text \<open>\<^verbatim>\<open>[p for p in required_params if p not in arguments]\<close>.\<close>

fun missing_params :: "string list \<Rightarrow> pyval \<Rightarrow> pyexc + string list" where
  "missing_params [] arguments = Inr []"
| "missing_params (p # ps) arguments =
     (case py_in p arguments of
        Inl e \<Rightarrow> Inl e
      | Inr present \<Rightarrow>
         (case missing_params ps arguments of
            Inl e \<Rightarrow> Inl e
          | Inr missing \<Rightarrow> Inr (if present then missing else p # missing)))"

text \<open>\<^verbatim>\<open>tool_func(**arguments)\<close>: only a dictionary can be unpacked (the interpreter's
  message also names the callee, which is left out here).\<close>

definition call_kwargs :: "callable \<Rightarrow> pyval \<Rightarrow> pyexc + pyval" where
  "call_kwargs tool_func arguments =
     (case arguments of
        PDict kwargs \<Rightarrow> tool_func kwargs
      | _ \<Rightarrow> Inl (Exception (''argument after ** must be a mapping, not '' @ type_name arguments)))"

text \<open>The debug line after a tool has returned:
  \<^verbatim>\<open>json.dumps(result) if result is not None else 'None'\<close>.\<close>

definition log_result :: "pyval \<Rightarrow> pyexc option" where
  "log_result result = (if result \<noteq> PNone then json_dumps result else None)"

subsection \<open>\<^verbatim>\<open>initialize\<close>\<close>

definition initialize :: "mcp \<Rightarrow> pyval \<Rightarrow> (pyexc + pyval) \<times> mcp" where
  "initialize self params =
     (case (if truthy params then json_dumps params else None) of
        Some e \<Rightarrow> (Inl e, self)
      | None \<Rightarrow>
         (Inr (PDict
            [(''protocolVersion'', PStr ''2024-11-05''),
             (''capabilities'', PDict [(''tools'', PDict [(''listChanged'', PBool False)])]),
             (''serverInfo'', PDict [(''name'', PStr (server_name self)),
                                     (''version'', PStr (server_version self))])]),
          self\<lparr>initialized := True\<rparr>))"

subsection \<open>The branches of \<^verbatim>\<open>run\<close>\<close>

text \<open>The entry of \<^verbatim>\<open>tools/list\<close> for one tool.\<close>

definition tool_schema :: "string \<times> tool_info \<Rightarrow> pyval" where
  "tool_schema entry =
     PDict [(''name'', PStr (fst entry)),
            (''description'', description (snd entry)),
            (''inputSchema'',
               PDict [(''type'', PStr ''object''),
                      (''properties'', PDict (properties (snd entry))),
                      (''required'', PList (map PStr (required_params (snd entry))))])]"

definition tools_list :: "mcp \<Rightarrow> pyval list" where
  "tools_list self = map tool_schema (tools self)"

text \<open>The dictionary \<^verbatim>\<open>tool_response\<close> that wraps the result of \<^verbatim>\<open>tools/call\<close>.\<close>

definition tool_response :: "pyval \<Rightarrow> pyval" where
  "tool_response result =
     PDict [(''content'', PList [PDict [(''type'', PStr ''text''), (''text'', PStr (py_str result))]])]"

text \<open>The branch \<^verbatim>\<open>if method == "tools/call"\<close>. \<open>Inl\<close> is an exception on its way to
  the handlers of \<^verbatim>\<open>run\<close>.\<close>

definition tools_call :: "mcp \<Rightarrow> pyval \<Rightarrow> pyval \<Rightarrow> pyexc + pyval" where
  "tools_call self request_id params =
     (case params of
        PDict ps \<Rightarrow>
          (let tool_name = dict_get ps ''name'' PNone;
               tool_arguments = dict_get ps ''arguments'' (PDict [])
           in if \<not> truthy tool_name
              then Inr (error_response request_id (- 32602) ''Invalid params''
                          (PStr ''Missing tool name in tools/call''))
              else
                (case tools_get (tools self) tool_name of
                   Inl e \<Rightarrow> Inl e
                 | Inr None \<Rightarrow>
                     Inr (error_response request_id (- 32601) ''Method not found''
                            (PStr (''Tool '' @ quoted (py_str tool_name) @ '' not found'')))
                 | Inr (Some info) \<Rightarrow>
                    (case json_dumps tool_arguments of
                       Some e \<Rightarrow> Inl e
                     | None \<Rightarrow>
                        (case missing_params (required_params info) tool_arguments of
                           Inl e \<Rightarrow> Inl e
                         | Inr missing \<Rightarrow>
                            if missing \<noteq> []
                            then Inr (error_response request_id (- 32602) ''Invalid params''
                                   (PStr (''Missing required parameters: '' @ join '', '' missing)))
                            else
                              (case call_kwargs (tool_function info) tool_arguments of
                                 Inl e \<Rightarrow> Inl e
                               | Inr result \<Rightarrow>
                                  (case log_result result of
                                     Some e \<Rightarrow> Inl e
                                   | None \<Rightarrow>
                                      Inr (success_response request_id (tool_response result))))))))
      | _ \<Rightarrow> Inl (no_get params))"

text \<open>The rest of the \<^verbatim>\<open>try\<close> block, after the automatic \<^verbatim>\<open>initialize\<close>: the method
  is taken as the name of a tool.\<close>

definition direct_call :: "mcp \<Rightarrow> pyval \<Rightarrow> pyval \<Rightarrow> pyval \<Rightarrow> pyexc + pyval" where
  "direct_call self request_id method params =
     (case tools_get (tools self) method of
        Inl e \<Rightarrow> Inl e
      | Inr None \<Rightarrow>
          Inr (error_response request_id (- 32601) ''Method not found''
                 (PStr (''Tool '' @ quoted (py_str method) @ '' not found'')))
      | Inr (Some info) \<Rightarrow>
         (case json_dumps params of
            Some e \<Rightarrow> Inl e
          | None \<Rightarrow>
             (case missing_params (required_params info) params of
                Inl e \<Rightarrow> Inl e
              | Inr missing \<Rightarrow>
                 if missing \<noteq> []
                 then Inr (error_response request_id (- 32602) ''Invalid params''
                        (PStr (''Missing required parameters: '' @ join '', '' missing)))
                 else
                   (case call_kwargs (tool_function info) params of
                      Inl e \<Rightarrow> Inl e
                    | Inr result \<Rightarrow>
                       (case log_result result of
                          Some e \<Rightarrow> Inl e
                        | None \<Rightarrow> Inr (success_response request_id result))))))"

text \<open>\<^verbatim>\<open>if not self.initialized: self.initialize()\<close>.\<close>

definition auto_initialize :: "mcp \<Rightarrow> mcp" where
  "auto_initialize self = (if \<not> initialized self then snd (initialize self PNone) else self)"

text \<open>The \<^verbatim>\<open>try\<close> block from \<^verbatim>\<open>if not method\<close> on: the response or the exception
  raised, and the server afterwards.\<close>

definition dispatch :: "mcp \<Rightarrow> pyval \<Rightarrow> pyval \<Rightarrow> pyval \<Rightarrow> (pyexc + pyval) \<times> mcp" where
  "dispatch self request_id method params =
     (if \<not> truthy method
      then (Inr (error_response request_id (- 32600) ''Invalid Request'' (PStr ''Missing method'')),
            self)
      else if method = PStr ''initialize''
      then (case initialize self params of
              (Inl e, self') \<Rightarrow> (Inl e, self')
            | (Inr result, self') \<Rightarrow> (Inr (success_response request_id result), self'))
      else if method = PStr ''initialized'' \<or> method = PStr ''notifications/initialized''
      then (Inr (success_response request_id (PDict [])), self)
      else if method = PStr ''tools/list''
      then (Inr (success_response request_id (PDict [(''tools'', PList (tools_list self))])), self)
      else if method = PStr ''tools/call''
      then (tools_call self request_id params, self)
      else (let self' = auto_initialize self
            in (direct_call self' request_id method params, self')))"

text \<open>The two \<^verbatim>\<open>except\<close> clauses of \<^verbatim>\<open>run\<close>.\<close>

definition handle_exception :: "pyval \<Rightarrow> pyexc \<Rightarrow> pyval" where
  "handle_exception request_id e =
     (case e of
        JSONDecodeError m \<Rightarrow> error_response PNone (- 32700) ''Parse error'' (PStr ''Invalid JSON'')
      | Exception m \<Rightarrow>
          error_response request_id (- 32603) ''Internal error''
            (PStr (''An error occurred during tool execution: '' @ m)))"

text \<open>The first statement of the \<^verbatim>\<open>try\<close> block: a string is parsed, anything else is
  formatted by \<^verbatim>\<open>json.dumps\<close> for the log and taken as it is. \<^verbatim>\<open>json.loads\<close> is a
  parameter: \<open>None\<close> is its \<^verbatim>\<open>JSONDecodeError\<close>.\<close>

definition read_request :: "(string \<Rightarrow> pyval option) \<Rightarrow> pyval \<Rightarrow> pyexc + pyval" where
  "read_request json_loads request_json =
     (case request_json of
        PStr text \<Rightarrow>
          (case json_loads text of
             None \<Rightarrow> Inl (JSONDecodeError ''Invalid JSON'')
           | Some request \<Rightarrow> Inr request)
      | _ \<Rightarrow>
          (case json_dumps request_json of
             Some e \<Rightarrow> Inl e
           | None \<Rightarrow> Inr request_json))"

text \<open>\<^verbatim>\<open>MCP.run\<close>: the response and the server afterwards.\<close>

definition run :: "(string \<Rightarrow> pyval option) \<Rightarrow> mcp \<Rightarrow> pyval \<Rightarrow> pyval \<times> mcp" where
  "run json_loads self request_json =
     (case read_request json_loads request_json of
        Inl e \<Rightarrow> (handle_exception PNone e, self)
      | Inr request \<Rightarrow>
         (case request of
            PDict req \<Rightarrow>
              if dict_get req ''jsonrpc'' PNone \<noteq> PStr ''2.0''
              then (error_response PNone (- 32600) ''Invalid Request''
                      (PStr ''Missing or invalid jsonrpc version''), self)
              else
                (let request_id = dict_get req ''id'' PNone;
                     method = dict_get req ''method'' PNone;
                     params = dict_get req ''params'' (PDict [])
                 in case dispatch self request_id method params of
                      (Inl e, self') \<Rightarrow> (handle_exception request_id e, self')
                    | (Inr response, self') \<Rightarrow> (response, self'))
          | _ \<Rightarrow> (handle_exception PNone (no_get request), self)))"

section \<open>Reading a response\<close>

text \<open>\<^verbatim>\<open>response.get("id")\<close>, \<^verbatim>\<open>response["error"]["code"]\<close> and
  \<^verbatim>\<open>response["error"].get("data")\<close>, as the tests read them; \<open>None\<close> when the key is
  not there.\<close>

definition response_id :: "pyval \<Rightarrow> pyval option" where
  "response_id response = (case response of PDict d \<Rightarrow> map_of d ''id'' | _ \<Rightarrow> None)"

definition response_error :: "pyval \<Rightarrow> (string \<times> pyval) list option" where
  "response_error response =
     (case response of
        PDict d \<Rightarrow> (case map_of d ''error'' of Some (PDict e) \<Rightarrow> Some e | _ \<Rightarrow> None)
      | _ \<Rightarrow> None)"

definition error_code :: "pyval \<Rightarrow> pyval option" where
  "error_code response = (case response_error response of None \<Rightarrow> None | Some e \<Rightarrow> map_of e ''code'')"

definition error_data :: "pyval \<Rightarrow> pyval option" where
  "error_data response = (case response_error response of None \<Rightarrow> None | Some e \<Rightarrow> map_of e ''data'')"

section \<open>The tools and requests of the tests\<close>

text \<open>\<^verbatim>\<open>x + y\<close> on the values of the model: numbers add (a boolean counts as 0 or 1),
  strings and lists concatenate, anything else raises \<^verbatim>\<open>TypeError\<close>.\<close>

fun as_number :: "pyval \<Rightarrow> int option" where
  "as_number (PInt i) = Some i"
| "as_number (PBool b) = Some (if b then 1 else 0)"
| "as_number v = None"

definition py_add :: "pyval \<Rightarrow> pyval \<Rightarrow> pyexc + pyval" where
  "py_add a b =
     (case (as_number a, as_number b) of
        (Some i, Some j) \<Rightarrow> Inr (PInt (i + j))
      | _ \<Rightarrow>
        (case (a, b) of
           (PStr s, PStr t) \<Rightarrow> Inr (PStr (s @ t))
         | (PStr s, _) \<Rightarrow>
             Inl (Exception (''can only concatenate str (not '' @ [CHR 0x22] @ type_name b
                             @ [CHR 0x22] @ '') to str''))
         | (PList xs, PList ys) \<Rightarrow> Inr (PList (xs @ ys))
         | (PList xs, _) \<Rightarrow>
             Inl (Exception (''can only concatenate list (not '' @ [CHR 0x22] @ type_name b
                             @ [CHR 0x22] @ '') to list''))
         | _ \<Rightarrow>
             Inl (Exception (''unsupported operand type(s) for +: '' @ quoted (type_name a)
                             @ '' and '' @ quoted (type_name b)))))"

text \<open>The tool \<^verbatim>\<open>add(x: int, y: int) -> int\<close> of \<^verbatim>\<open>test_tools_call_request\<close>,
  which is defined inside the test method. The body is only run with both parameters
  bound.\<close>

definition add_body :: "(string \<rightharpoonup> pyval) \<Rightarrow> pyexc + pyval" where
  "add_body args =
     (case (args ''x'', args ''y'') of
        (Some a, Some b) \<Rightarrow> py_add a b
      | _ \<Rightarrow> Inl (Exception ''unbound parameter''))"

definition add_func :: pyfunc where
  "add_func =
     py_def ''add'' ''TestMCPCore.test_tools_call_request.<locals>.add''
       (Some (''Add two numbers.'' @ [CHR 0x0A, CHR 0x0A] @ ''    x: First number''
              @ [CHR 0x0A] @ ''    y: Second number'' @ [CHR 0x0A] @ ''    ''))
       [\<lparr>pname = ''x'', annotation = Class Cint, has_default = False\<rparr>,
        \<lparr>pname = ''y'', annotation = Class Cint, has_default = False\<rparr>]
       add_body"

text \<open>The tool \<^verbatim>\<open>failing_func()\<close> of \<^verbatim>\<open>test_tool_execution_exception\<close>, which raises
  \<^verbatim>\<open>ValueError("Something went wrong!")\<close>.\<close>

definition failing_func :: pyfunc where
  "failing_func =
     py_def ''failing_func''
       ''TestErrorHandling.test_tool_execution_exception.<locals>.failing_func''
       (Some ''Function that raises an exception.'') []
       (\<lambda>args. Inl (Exception ''Something went wrong!''))"

text \<open>A tool \<^verbatim>\<open>parse_config(text: str)\<close>, defined at the top of a module, whose body
  is \<^verbatim>\<open>return json.loads(text)\<close>.\<close>

definition parse_config :: "(string \<Rightarrow> pyval option) \<Rightarrow> pyfunc" where
  "parse_config json_loads =
     py_def ''parse_config'' ''parse_config'' (Some ''Parse a configuration given as JSON text.'')
       [\<lparr>pname = ''text'', annotation = Class Cstr, has_default = False\<rparr>]
       (\<lambda>args. case args ''text'' of
                 Some (PStr text) \<Rightarrow>
                   (case json_loads text of
                      None \<Rightarrow> Inl (JSONDecodeError ''Invalid JSON'')
                    | Some v \<Rightarrow> Inr v)
               | Some v \<Rightarrow>
                   Inl (Exception (''the JSON object must be str, bytes or bytearray, not ''
                                   @ type_name v))
               | None \<Rightarrow> Inl (Exception ''unbound parameter''))"

text \<open>A tool \<^verbatim>\<open>first(items: [int], fallback: int = 0)\<close>, whose first annotation is
  a list, and whose body returns the first item or the fallback.\<close>

definition first_func :: pyfunc where
  "first_func =
     py_def ''first'' ''first'' (Some ''First item of a list.'')
       [\<lparr>pname = ''items'', annotation = Unhashable ''list'', has_default = False\<rparr>,
        \<lparr>pname = ''fallback'', annotation = Class Cint, has_default = True\<rparr>]
       (\<lambda>args. case args ''items'' of
                 Some (PList (x # xs)) \<Rightarrow> Inr x
               | _ \<Rightarrow> Inr (case args ''fallback'' of None \<Rightarrow> PInt 0 | Some v \<Rightarrow> v))"

text \<open>The server of the tests, \<^verbatim>\<open>MCP("Test Server", "1.0.0")\<close>, with one tool
  registered through the decorator.\<close>

definition test_server :: mcp where
  "test_server = MCP_init ''Test Server'' ''1.0.0''"

definition server_with :: "string \<Rightarrow> string \<Rightarrow> pyfunc \<Rightarrow> mcp" where
  "server_with tool_title tool_description func =
     decorated test_server
       [(''Title'', PStr tool_title), (''Description'', PStr tool_description)] func"

definition add_server :: mcp where
  "add_server = server_with ''Add'' ''Add two numbers'' add_func"

text \<open>Two tools registered one after the other, as in \<^verbatim>\<open>test_list_tools\<close>.\<close>

definition two_tool_server :: mcp where
  "two_tool_server =
     decorated add_server
       [(''Title'', PStr ''Failing Function''), (''Description'', PStr ''Function that fails'')]
       failing_func"

text \<open>A request given as a dictionary, with the four keys in the order the tests write
  them.\<close>

definition envelope :: "string \<Rightarrow> string \<Rightarrow> pyval \<Rightarrow> pyval \<Rightarrow> pyval" where
  "envelope version method params request_id =
     PDict [(''jsonrpc'', PStr version), (''method'', PStr method), (''params'', params),
            (''id'', request_id)]"

definition tools_call_params :: "pyval \<Rightarrow> (string \<times> pyval) list \<Rightarrow> pyval" where
  "tools_call_params name arguments = PDict [(''name'', name), (''arguments'', PDict arguments)]"

text \<open>A parser that rejects every text. It stands for \<^verbatim>\<open>json.loads\<close> where a request
  is given as a dictionary, so that nothing is parsed, and on malformed text.\<close>

definition rejecting_loads :: "string \<Rightarrow> pyval option" where
  "rejecting_loads text = None"

section \<open>The specification's words\<close>

text \<open>The methods that \<^verbatim>\<open>run\<close> handles itself; any other method is taken as the
  name of a tool (the direct, legacy way of calling).\<close>

definition protocol_methods :: "pyval list" where
  "protocol_methods =
     [PStr ''initialize'', PStr ''initialized'', PStr ''notifications/initialized'',
      PStr ''tools/list'', PStr ''tools/call'']"

text \<open>The required parameters of a function: the names of its parameters without a
  default value, in declared order. And those of them that an argument mapping omits.\<close>

definition required_of :: "pyfunc \<Rightarrow> string list" where
  "required_of func = map pname (filter (\<lambda>p. \<not> has_default p) (parameters func))"

definition omitted :: "string list \<Rightarrow> (string \<times> pyval) list \<Rightarrow> string list" where
  "omitted required arguments = filter (\<lambda>p. p \<notin> set (map fst arguments)) required"

subsection \<open>Textual annotations\<close>

text \<open>The tokens of the specification in their priority order, each with the schema type
  it stands for; the first token that occurs in the lowered text decides, and the text of
  no token gives \<open>string\<close>.\<close>

definition token_table :: "(string \<times> string) list" where
  "token_table =
     [(''int'', ''integer''), (''float'', ''number''), (''number'', ''number''),
      (''bool'', ''boolean''), (''list'', ''array''), (''array'', ''array''),
      (''dict'', ''object''), (''object'', ''object'')]"

definition first_token_type :: "string \<Rightarrow> string" where
  "first_token_type text =
     (case find (\<lambda>entry. str_contains (fst entry) (lower text)) token_table of
        None \<Rightarrow> ''string''
      | Some entry \<Rightarrow> snd entry)"

definition schema_types :: "string list" where
  "schema_types = [''string'', ''integer'', ''number'', ''boolean'', ''array'', ''object'']"

subsection \<open>Echoing the request id\<close>


section \<open>Lemmas about the model\<close>

subsection \<open>Strings and dictionaries\<close>

text \<open>\<open>str_contains\<close> is the substring relation.\<close>

lemma str_contains_iff:
  "str_contains needle hay \<longleftrightarrow> (\<exists>pre post. hay = pre @ needle @ post)"
proof (induction hay)
  case Nil
  show ?case by auto
next
  case (Cons c cs)
  have start: "startswith (c # cs) needle \<longleftrightarrow> (\<exists>post. c # cs = needle @ post)"
    unfolding startswith_def by (metis append_eq_conv_conj)
  have "(\<exists>pre post. c # cs = pre @ needle @ post) \<longleftrightarrow>
        (\<exists>post. c # cs = needle @ post) \<or> (\<exists>pre post. cs = pre @ needle @ post)"
  proof
    assume "\<exists>pre post. c # cs = pre @ needle @ post"
    then obtain pre post where eq: "c # cs = pre @ needle @ post" by blast
    show "(\<exists>post. c # cs = needle @ post) \<or> (\<exists>pre post. cs = pre @ needle @ post)"
    proof (cases pre)
      case Nil
      with eq show ?thesis by auto
    next
      case (Cons p ps)
      with eq have "cs = ps @ needle @ post" by simp
      then show ?thesis by blast
    qed
  next
    assume "(\<exists>post. c # cs = needle @ post) \<or> (\<exists>pre post. cs = pre @ needle @ post)"
    then show "\<exists>pre post. c # cs = pre @ needle @ post"
    proof
      assume "\<exists>post. c # cs = needle @ post"
      then obtain post where "c # cs = [] @ needle @ post" by auto
      then show ?thesis by blast
    next
      assume "\<exists>pre post. cs = pre @ needle @ post"
      then obtain pre post where "c # cs = (c # pre) @ needle @ post" by auto
      then show ?thesis by blast
    qed
  qed
  with Cons start show ?case by simp
qed

lemma infer_from_text_table:
  "infer_from_text s =
     map_option snd (find (\<lambda>entry. str_contains (fst entry) (lower s)) token_table)"
  by (simp add: infer_from_text_def token_table_def Let_def)

lemma dict_set_lookup: "map_of (dict_set d k v) k = Some v"
  by (induction d) auto

lemma dict_set_update:
  "i < length d \<Longrightarrow> fst (d ! i) = k \<Longrightarrow> \<forall>j<i. fst (d ! j) \<noteq> k
     \<Longrightarrow> dict_set d k v = d[i := (k, v)]"
proof (induction d arbitrary: i)
  case Nil
  then show ?case by simp
next
  case (Cons p ps)
  show ?case
  proof (cases i)
    case 0
    with Cons.prems show ?thesis by simp
  next
    case (Suc n)
    with Cons.prems have "fst p \<noteq> k" by auto
    moreover have "dict_set ps k v = ps[n := (k, v)]"
      using Cons.prems Suc by (intro Cons.IH) auto
    ultimately show ?thesis using Suc by simp
  qed
qed

subsection \<open>What \<^verbatim>\<open>add\<close> stores\<close>

lemma add_params_required:
  "add_params d ps (required, props) = Inr (required', props')
     \<Longrightarrow> required' = required @ map pname (filter (\<lambda>p. \<not> has_default p) ps)"
proof (induction ps arbitrary: required props)
  case Nil
  then show ?case by simp
next
  case (Cons p ps)
  from Cons.prems obtain t
    where step: "add_params d ps
        (if \<not> has_default p then required @ [pname p] else required,
         dict_set props (pname p)
           (PDict [(''type'', PStr t), (''description'', PStr (param_description d (pname p)))]))
        = Inr (required', props')"
    by (auto split: sum.splits)
  from Cons.IH [OF step] show ?case by simp
qed

lemma make_tool_info_fields:
  assumes "make_tool_info tool_info_dict func = Inr info"
  shows "required_params info = required_of func"
    and "tool_function info = call func"
    and "title info = dict_get tool_info_dict ''Title'' PNone"
    and "description info = dict_get tool_info_dict ''Description'' PNone"
proof -
  obtain required props
    where eq: "add_params (doc func) (parameters func) ([], []) = Inr (required, props)"
      and info: "info = \<lparr>title = dict_get tool_info_dict ''Title'' PNone,
               description = dict_get tool_info_dict ''Description'' PNone,
               tool_function = call func,
               required_params = required,
               properties = props\<rparr>"
    using assms by (auto simp: make_tool_info_def split: sum.splits)
  from add_params_required [OF eq] show "required_params info = required_of func"
    by (simp add: info required_of_def)
  show "tool_function info = call func"
    and "title info = dict_get tool_info_dict ''Title'' PNone"
    and "description info = dict_get tool_info_dict ''Description'' PNone"
    by (simp_all add: info)
qed


subsection \<open>The dispatcher\<close>

lemma run_dispatch:
  assumes "read_request json_loads request_json = Inr (PDict req)"
    and "dict_get req ''jsonrpc'' PNone = PStr ''2.0''"
  shows "run json_loads self request_json =
     (case dispatch self (dict_get req ''id'' PNone) (dict_get req ''method'' PNone)
             (dict_get req ''params'' (PDict [])) of
        (Inl e, self') \<Rightarrow> (handle_exception (dict_get req ''id'' PNone) e, self')
      | (Inr response, self') \<Rightarrow> (response, self'))"
  using assms by (simp add: run_def Let_def)

text \<open>An exception of the \<^verbatim>\<open>try\<close> block that is no \<^verbatim>\<open>JSONDecodeError\<close> becomes the
  error \<open>-32603\<close> with its message and with the id of the request.\<close>

lemma run_internal_error:
  assumes "read_request json_loads request_json = Inr (PDict req)"
    and "dict_get req ''jsonrpc'' PNone = PStr ''2.0''"
    and "dispatch self (dict_get req ''id'' PNone) (dict_get req ''method'' PNone)
           (dict_get req ''params'' (PDict [])) = (Inl (Exception m), self')"
  shows "run json_loads self request_json =
     (error_response (dict_get req ''id'' PNone) (- 32603) ''Internal error''
        (PStr (''An error occurred during tool execution: '' @ m)), self')"
  using assms(3) by (simp add: run_dispatch [OF assms(1,2)] handle_exception_def)

lemma tools_auto_initialize: "tools (auto_initialize self) = tools self"
  by (simp add: auto_initialize_def initialize_def)

lemma initialized_auto_initialize: "initialized (auto_initialize self)"
  by (simp add: auto_initialize_def initialize_def)

lemma dispatch_direct:
  assumes "truthy method" and "method \<notin> set protocol_methods"
  shows "dispatch self request_id method params =
     (direct_call (auto_initialize self) request_id method params, auto_initialize self)"
  using assms by (simp add: dispatch_def protocol_methods_def Let_def)

lemma missing_params_dict:
  "missing_params required (PDict arguments) = Inr (omitted required arguments)"
  by (induction required) (auto simp: omitted_def)

lemma json_dumps_serializable: "unserializable v = None \<Longrightarrow> json_dumps v = None"
  by (simp add: json_dumps_def)

lemma tools_call_found:
  assumes "dict_get ps ''name'' PNone = PStr name" and "name \<noteq> []"
    and "dict_get ps ''arguments'' (PDict []) = PDict arguments"
    and "map_of (tools self) name = Some info"
    and "unserializable (PDict arguments) = None"
  shows "tools_call self request_id (PDict ps) =
     (if omitted (required_params info) arguments \<noteq> []
      then Inr (error_response request_id (- 32602) ''Invalid params''
             (PStr (''Missing required parameters: ''
                    @ join '', '' (omitted (required_params info) arguments))))
      else case tool_function info arguments of
             Inl e \<Rightarrow> Inl e
           | Inr result \<Rightarrow>
              (case log_result result of
                 Some e \<Rightarrow> Inl e
               | None \<Rightarrow> Inr (success_response request_id (tool_response result))))"
  using assms
  by (simp add: tools_call_def Let_def tools_get_def missing_params_dict json_dumps_serializable
      call_kwargs_def)

lemma direct_call_found:
  assumes "map_of (tools self) name = Some info"
    and "unserializable (PDict arguments) = None"
  shows "direct_call self request_id (PStr name) (PDict arguments) =
     (if omitted (required_params info) arguments \<noteq> []
      then Inr (error_response request_id (- 32602) ''Invalid params''
             (PStr (''Missing required parameters: ''
                    @ join '', '' (omitted (required_params info) arguments))))
      else case tool_function info arguments of
             Inl e \<Rightarrow> Inl e
           | Inr result \<Rightarrow>
              (case log_result result of
                 Some e \<Rightarrow> Inl e
               | None \<Rightarrow> Inr (success_response request_id result)))"
  using assms
  by (simp add: direct_call_def Let_def tools_get_def missing_params_dict json_dumps_serializable
      call_kwargs_def)

lemma error_code_handle_exception:
  "error_code (handle_exception request_id e) =
     Some (PInt (case e of JSONDecodeError m \<Rightarrow> - 32700 | Exception m \<Rightarrow> - 32603))"
  by (cases e)
     (simp_all add: handle_exception_def error_code_def response_error_def error_response_def)

lemma error_code_success: "error_code (success_response request_id result) = None"
  by (simp add: error_code_def response_error_def success_response_def)

subsection \<open>Which exceptions the dispatcher raises, and which id its responses carry\<close>

















subsection \<open>The requests and servers of the examples\<close>

lemma read_envelope:
  "unserializable params = None \<Longrightarrow> unserializable request_id = None \<Longrightarrow>
   read_request json_loads (envelope version method params request_id)
     = Inr (PDict [(''jsonrpc'', PStr version), (''method'', PStr method), (''params'', params),
                   (''id'', request_id)])"
  by (simp add: read_request_def envelope_def json_dumps_def)

text \<open>What the decorator stores for \<^verbatim>\<open>add\<close> and for \<^verbatim>\<open>failing_func\<close>.\<close>

lemma make_tool_info_add_func:
  "make_tool_info tool_info_dict add_func =
     Inr \<lparr>title = dict_get tool_info_dict ''Title'' PNone,
          description = dict_get tool_info_dict ''Description'' PNone,
          tool_function = call add_func,
          required_params = [''x'', ''y''],
          properties =
            [(''x'', PDict [(''type'', PStr ''integer''), (''description'', PStr ''First number'')]),
             (''y'', PDict [(''type'', PStr ''integer''), (''description'', PStr ''Second number'')])]\<rparr>"
proof -
  have "add_params (doc add_func) (parameters add_func) ([], []) =
      Inr ([''x'', ''y''],
        [(''x'', PDict [(''type'', PStr ''integer''), (''description'', PStr ''First number'')]),
         (''y'', PDict [(''type'', PStr ''integer''), (''description'', PStr ''Second number'')])])"
    by code_simp
  then show ?thesis by (simp add: make_tool_info_def)
qed

lemma make_tool_info_failing_func:
  "make_tool_info tool_info_dict failing_func =
     Inr \<lparr>title = dict_get tool_info_dict ''Title'' PNone,
          description = dict_get tool_info_dict ''Description'' PNone,
          tool_function = call failing_func,
          required_params = [],
          properties = []\<rparr>"
proof -
  have "add_params (doc failing_func) (parameters failing_func) ([], []) = Inr ([], [])"
    by code_simp
  then show ?thesis by (simp add: make_tool_info_def)
qed

lemma fname_examples: "fname add_func = ''add''" "fname failing_func = ''failing_func''"
  by (simp_all add: add_func_def failing_func_def py_def_def)

lemma tools_add_server:
  "tools add_server =
     [(''add'',
       \<lparr>title = PStr ''Add'', description = PStr ''Add two numbers'',
        tool_function = call add_func, required_params = [''x'', ''y''],
        properties =
          [(''x'', PDict [(''type'', PStr ''integer''), (''description'', PStr ''First number'')]),
           (''y'', PDict [(''type'', PStr ''integer''), (''description'', PStr ''Second number'')])]\<rparr>)]"
  by (simp add: add_server_def server_with_def decorated_def add_def make_tool_info_add_func
      register_tool_def test_server_def MCP_init_def fname_examples dict_get_def)

lemma tools_two_tool_server:
  "tools two_tool_server =
     [(''add'',
       \<lparr>title = PStr ''Add'', description = PStr ''Add two numbers'',
        tool_function = call add_func, required_params = [''x'', ''y''],
        properties =
          [(''x'', PDict [(''type'', PStr ''integer''), (''description'', PStr ''First number'')]),
           (''y'', PDict [(''type'', PStr ''integer''), (''description'', PStr ''Second number'')])]\<rparr>),
      (''failing_func'',
       \<lparr>title = PStr ''Failing Function'', description = PStr ''Function that fails'',
        tool_function = call failing_func, required_params = [], properties = []\<rparr>)]"
  by (simp add: two_tool_server_def decorated_def add_def make_tool_info_failing_func
      register_tool_def tools_add_server fname_examples dict_get_def)




lemma call_parse_config:
  assumes "json_loads text = None"
  shows "call (parse_config json_loads) [(''text'', PStr text)] = Inl (JSONDecodeError ''Invalid JSON'')"
  using assms by (simp add: parse_config_def py_def_def call_def_def)

lemma required_of_parse_config: "required_of (parse_config json_loads) = [''text'']"
  by (simp add: required_of_def parse_config_def py_def_def)

subsection \<open>Joined names, hashable annotations, a second registration\<close>

lemma join_concat:
  "names \<noteq> [] \<Longrightarrow> join sep names = hd names @ concat (map (\<lambda>n. sep @ n) (tl names))"
  by (induction sep names rule: join.induct) simp_all

text \<open>What \<^verbatim>\<open>_infer_param_type_from_annotation\<close> returns for the annotations that can
  be hashed: for a string the first match in the priority table on the lowered text
  (\<open>str_contains\<close> is the substring relation by \<open>str_contains_iff\<close>), the same for two
  texts that differ only in case; \<open>string\<close> for \<open>Empty\<close> and \<open>None\<close> and for every
  annotation that is no key of the table, has no mapped origin and, if a string, contains
  no token; and always one of the six schema types.\<close>

lemma infer_hashable_annotation:
  "infer_param_type_from_annotation (StrAnn s) = Inr (first_token_type s)
   \<and> (lower s = lower t \<longrightarrow>
        infer_param_type_from_annotation (StrAnn s) = infer_param_type_from_annotation (StrAnn t))
   \<and> infer_param_type_from_annotation Empty = Inr ''string''
   \<and> infer_param_type_from_annotation NoneAnn = Inr ''string''
   \<and> (mapped_annotation a = Inr None
        \<and> (\<forall>c. origin a = Some c \<longrightarrow> type_mapping c = None)
        \<and> (\<forall>u. a = StrAnn u \<longrightarrow>
               find (\<lambda>entry. str_contains (fst entry) (lower u)) token_table = None)
       \<longrightarrow> infer_param_type_from_annotation a = Inr ''string'')
   \<and> ((\<forall>c. a \<noteq> Unhashable c)
       \<longrightarrow> (\<exists>u \<in> set schema_types. infer_param_type_from_annotation a = Inr u))"
proof (intro conjI)
  show first: "infer_param_type_from_annotation (StrAnn s) = Inr (first_token_type s)" for s
    by (simp add: infer_param_type_from_annotation_def first_token_type_def infer_from_text_table
        split: option.splits)
  show "lower s = lower t \<longrightarrow>
        infer_param_type_from_annotation (StrAnn s) = infer_param_type_from_annotation (StrAnn t)"
    by (simp add: first first_token_type_def)
  show "infer_param_type_from_annotation Empty = Inr ''string''"
    by (simp add: infer_param_type_from_annotation_def)
  show "infer_param_type_from_annotation NoneAnn = Inr ''string''"
    by (simp add: infer_param_type_from_annotation_def)
  show "mapped_annotation a = Inr None
        \<and> (\<forall>c. origin a = Some c \<longrightarrow> type_mapping c = None)
        \<and> (\<forall>u. a = StrAnn u \<longrightarrow>
               find (\<lambda>entry. str_contains (fst entry) (lower u)) token_table = None)
       \<longrightarrow> infer_param_type_from_annotation a = Inr ''string''"
    by (cases a)
       (auto simp: infer_param_type_from_annotation_def infer_from_text_table split: option.splits)
  have table: "type_mapping c = Some u \<Longrightarrow> u \<in> set schema_types" for c u
    by (cases c) (auto simp: schema_types_def)
  have text_case: "infer_from_text v = Some u \<Longrightarrow> u \<in> set schema_types" for v u
    by (auto simp: infer_from_text_def schema_types_def Let_def split: if_splits)
  have fallback: "''string'' \<in> set schema_types"
    by (simp add: schema_types_def)
  show "(\<forall>c. a \<noteq> Unhashable c)
       \<longrightarrow> (\<exists>u \<in> set schema_types. infer_param_type_from_annotation a = Inr u)"
    using fallback
    by (cases a)
       (auto simp: infer_param_type_from_annotation_def
             dest: table text_case split: option.splits)
qed

lemma redecorated_add:
  "decorated two_tool_server
     [(''Title'', PStr ''Sum''), (''Description'', PStr ''Sum of two integers'')] add_func
   = register_tool two_tool_server ''add''
       \<lparr>title = PStr ''Sum'', description = PStr ''Sum of two integers'',
        tool_function = call add_func, required_params = [''x'', ''y''],
        properties =
          [(''x'', PDict [(''type'', PStr ''integer''), (''description'', PStr ''First number'')]),
           (''y'', PDict [(''type'', PStr ''integer''), (''description'', PStr ''Second number'')])]\<rparr>"
  by (simp add: decorated_def add_def make_tool_info_add_func fname_examples dict_get_def)

section \<open>The claims\<close>

subsection \<open>C1: when the server becomes initialized\<close>

text \<open>
  Claim C1 says that every request that runs a tool on a server that is not yet
  initialized, through \<^verbatim>\<open>tools/call\<close> or through a direct call, sets \<open>initialized\<close>
  before the tool runs. The source does so for direct calls only. Amended claim, C1: for
  every request whose method is not empty and is none of the protocol methods, \<^verbatim>\<open>run\<close>
  first makes the server initialized, then looks the method up and runs the tool on the
  initialized server, and the server is initialized afterwards (whether a tool ran or not);
  a \<^verbatim>\<open>tools/call\<close> request leaves the server as it was, so that a tool run through
  \<^verbatim>\<open>tools/call\<close> on a server that is not initialized leaves it not initialized.
\<close>

theorem C1_auto_initialize_direct_calls_only:
  assumes "read_request json_loads request_json = Inr (PDict req)"
    and "dict_get req ''jsonrpc'' PNone = PStr ''2.0''"
  shows "(truthy (dict_get req ''method'' PNone)
            \<and> dict_get req ''method'' PNone \<notin> set protocol_methods
          \<longrightarrow> dispatch self (dict_get req ''id'' PNone) (dict_get req ''method'' PNone)
                 (dict_get req ''params'' (PDict []))
               = (direct_call (auto_initialize self) (dict_get req ''id'' PNone)
                    (dict_get req ''method'' PNone) (dict_get req ''params'' (PDict [])),
                  auto_initialize self)
              \<and> initialized (auto_initialize self)
              \<and> snd (run json_loads self request_json) = auto_initialize self)
    \<and> (dict_get req ''method'' PNone = PStr ''tools/call''
          \<longrightarrow> snd (run json_loads self request_json) = self)"
proof (intro conjI impI)
  assume direct: "truthy (dict_get req ''method'' PNone)
            \<and> dict_get req ''method'' PNone \<notin> set protocol_methods"
  then show "dispatch self (dict_get req ''id'' PNone) (dict_get req ''method'' PNone)
                 (dict_get req ''params'' (PDict []))
               = (direct_call (auto_initialize self) (dict_get req ''id'' PNone)
                    (dict_get req ''method'' PNone) (dict_get req ''params'' (PDict [])),
                  auto_initialize self)"
    by (simp add: dispatch_direct)
  show "initialized (auto_initialize self)"
    by (rule initialized_auto_initialize)
  from direct show "snd (run json_loads self request_json) = auto_initialize self"
    by (simp add: run_dispatch [OF assms] dispatch_direct split: sum.splits)
next
  assume "dict_get req ''method'' PNone = PStr ''tools/call''"
  then show "snd (run json_loads self request_json) = self"
    by (simp add: run_dispatch [OF assms] dispatch_def split: sum.splits)
qed

theorem C1_auto_initialize_direct_calls_only_witness:
  "\<not> initialized add_server
   \<and> initialized (snd (run rejecting_loads add_server
        (envelope ''2.0'' ''add'' (PDict [(''x'', PInt 2), (''y'', PInt 3)]) (PInt 9))))
   \<and> snd (run rejecting_loads add_server
        (envelope ''2.0'' ''tools/call''
           (tools_call_params (PStr ''add'') [(''x'', PInt 10), (''y'', PInt 25)]) (PStr ''call'')))
      = add_server"
proof -
  let ?direct = "[(''jsonrpc'', PStr ''2.0''), (''method'', PStr ''add''),
                  (''params'', PDict [(''x'', PInt 2), (''y'', PInt 3)]), (''id'', PInt 9)]"
  let ?call = "[(''jsonrpc'', PStr ''2.0''), (''method'', PStr ''tools/call''),
                (''params'', tools_call_params (PStr ''add'') [(''x'', PInt 10), (''y'', PInt 25)]),
                (''id'', PStr ''call'')]"
  have d1: "read_request rejecting_loads
              (envelope ''2.0'' ''add'' (PDict [(''x'', PInt 2), (''y'', PInt 3)]) (PInt 9))
            = Inr (PDict ?direct)"
    by (simp add: read_envelope)
  have d2: "dict_get ?direct ''jsonrpc'' PNone = PStr ''2.0''" by (simp add: dict_get_def)
  have d3: "truthy (dict_get ?direct ''method'' PNone)
            \<and> dict_get ?direct ''method'' PNone \<notin> set protocol_methods"
    by (simp add: dict_get_def protocol_methods_def)
  have c1: "read_request rejecting_loads
              (envelope ''2.0'' ''tools/call''
                 (tools_call_params (PStr ''add'') [(''x'', PInt 10), (''y'', PInt 25)]) (PStr ''call''))
            = Inr (PDict ?call)"
    by (simp add: read_envelope tools_call_params_def)
  have c2: "dict_get ?call ''jsonrpc'' PNone = PStr ''2.0''" by (simp add: dict_get_def)
  have c3: "dict_get ?call ''method'' PNone = PStr ''tools/call''" by (simp add: dict_get_def)
  have before: "\<not> initialized add_server"
    by code_simp
  show ?thesis
    using C1_auto_initialize_direct_calls_only [OF d1 d2, of add_server]
      C1_auto_initialize_direct_calls_only [OF c1 c2, of add_server] d3 c3 before
    by simp
qed

text \<open>
  The counterexample to C1 as stated: on the server of the tests, which is not initialized,
  \<^verbatim>\<open>tools/call\<close> runs \<^verbatim>\<open>add\<close> with 10 and 25 and answers \<open>35\<close>, and the server is
  still not initialized afterwards.
\<close>

theorem C1_counterexample:
  "fst (run rejecting_loads add_server
          (envelope ''2.0'' ''tools/call''
             (tools_call_params (PStr ''add'') [(''x'', PInt 10), (''y'', PInt 25)]) (PStr ''call'')))
     = PDict [(''jsonrpc'', PStr ''2.0''),
              (''result'', PDict [(''content'',
                 PList [PDict [(''type'', PStr ''text''), (''text'', PStr ''35'')]])]),
              (''id'', PStr ''call'')]
   \<and> \<not> initialized add_server
   \<and> \<not> initialized (snd (run rejecting_loads add_server
          (envelope ''2.0'' ''tools/call''
             (tools_call_params (PStr ''add'') [(''x'', PInt 10), (''y'', PInt 25)]) (PStr ''call''))))"
  by code_simp

subsection \<open>C2: exceptions of a tool\<close>

text \<open>
  Claim C2. Every exception raised during dispatch or inside the tool that is called,
  other than a failure to parse the text of the request, becomes the error \<open>-32603\<close>,
  \<open>Internal error\<close>, with the failure's message in the data and with the id of the
  request. The source does not do that for one class of exception: the clause
  \<^verbatim>\<open>except json.JSONDecodeError\<close> covers the whole \<^verbatim>\<open>try\<close> block, the call of the
  tool included. A tool that parses JSON text of its own, such as \<^verbatim>\<open>parse_config\<close>,
  and is given malformed text raises that exception; the request itself was a
  well-formed dictionary with the id 7, and \<^verbatim>\<open>run\<close> answers it with \<open>-32700\<close>,
  \<open>Parse error\<close>, \<open>Invalid JSON\<close> and without \<open>id\<close>.
\<close>

theorem C2_tool_decode_error:
  assumes "json_loads text = None"
  shows "fst (run json_loads
            (server_with ''Parse'' ''Parse a configuration'' (parse_config json_loads))
            (envelope ''2.0'' ''tools/call''
               (tools_call_params (PStr ''parse_config'') [(''text'', PStr text)]) (PInt 7)))
         = error_response PNone (- 32700) ''Parse error'' (PStr ''Invalid JSON'')
       \<and> error_code (fst (run json_loads
            (server_with ''Parse'' ''Parse a configuration'' (parse_config json_loads))
            (envelope ''2.0'' ''tools/call''
               (tools_call_params (PStr ''parse_config'') [(''text'', PStr text)]) (PInt 7))))
         = Some (PInt (- 32700))
       \<and> response_id (fst (run json_loads
            (server_with ''Parse'' ''Parse a configuration'' (parse_config json_loads))
            (envelope ''2.0'' ''tools/call''
               (tools_call_params (PStr ''parse_config'') [(''text'', PStr text)]) (PInt 7))))
         = None"
proof -
  let ?server = "server_with ''Parse'' ''Parse a configuration'' (parse_config json_loads)"
  let ?info = "\<lparr>title = PStr ''Parse'', description = PStr ''Parse a configuration'',
                tool_function = call (parse_config json_loads), required_params = [''text''],
                properties = [(''text'', PDict [(''type'', PStr ''string''),
                                               (''description'', PStr ''Parameter text'')])]\<rparr>"
  let ?ps = "[(''name'', PStr ''parse_config''), (''arguments'', PDict [(''text'', PStr text)])]"
  let ?req = "[(''jsonrpc'', PStr ''2.0''), (''method'', PStr ''tools/call''),
               (''params'', PDict ?ps), (''id'', PInt 7)]"
  have "add_params (doc (parse_config json_loads)) (parameters (parse_config json_loads)) ([], [])
      = Inr ([''text''], [(''text'', PDict [(''type'', PStr ''string''),
                                           (''description'', PStr ''Parameter text'')])])"
    by code_simp
  then have found: "map_of (tools ?server) ''parse_config'' = Some ?info"
    by (simp add: server_with_def decorated_def add_def make_tool_info_def register_tool_def
        test_server_def MCP_init_def dict_get_def parse_config_def py_def_def)
  have a: "dict_get ?ps ''name'' PNone = PStr ''parse_config''" by (simp add: dict_get_def)
  have b: "dict_get ?ps ''arguments'' (PDict []) = PDict [(''text'', PStr text)]"
    by (simp add: dict_get_def)
  have c: "''parse_config'' \<noteq> []" by simp
  have u: "unserializable (PDict [(''text'', PStr text)]) = None" by simp
  have no_missing: "omitted [''text''] [(''text'', PStr text)] = []" by (simp add: omitted_def)
  have raised: "tools_call ?server (PInt 7) (PDict ?ps) = Inl (JSONDecodeError ''Invalid JSON'')"
    unfolding tools_call_found [OF a c b found u]
    by (simp add: no_missing call_parse_config [of json_loads, OF assms])
  have r: "read_request json_loads
             (envelope ''2.0'' ''tools/call''
                (tools_call_params (PStr ''parse_config'') [(''text'', PStr text)]) (PInt 7))
           = Inr (PDict ?req)"
    by (simp add: read_envelope tools_call_params_def)
  have v: "dict_get ?req ''jsonrpc'' PNone = PStr ''2.0''" by (simp add: dict_get_def)
  have m: "dict_get ?req ''method'' PNone = PStr ''tools/call''" by (simp add: dict_get_def)
  have p: "dict_get ?req ''params'' (PDict []) = PDict ?ps" by (simp add: dict_get_def)
  have i: "dict_get ?req ''id'' PNone = PInt 7" by (simp add: dict_get_def)
  have "fst (run json_loads ?server
            (envelope ''2.0'' ''tools/call''
               (tools_call_params (PStr ''parse_config'') [(''text'', PStr text)]) (PInt 7)))
         = error_response PNone (- 32700) ''Parse error'' (PStr ''Invalid JSON'')"
    by (simp add: run_dispatch [OF r v] m p i dispatch_def raised handle_exception_def)
  then show ?thesis
    by (simp add: error_code_def response_error_def response_id_def error_response_def)
qed

theorem C2_tool_decode_error_witness:
  "rejecting_loads ''{'' = None
   \<and> fst (run rejecting_loads
          (server_with ''Parse'' ''Parse a configuration'' (parse_config rejecting_loads))
          (envelope ''2.0'' ''tools/call''
             (tools_call_params (PStr ''parse_config'') [(''text'', PStr ''{'')]) (PInt 7)))
     = PDict [(''jsonrpc'', PStr ''2.0''),
              (''error'', PDict [(''code'', PInt (- 32700)), (''message'', PStr ''Parse error''),
                                 (''data'', PStr ''Invalid JSON'')])]"
proof -
  have h: "rejecting_loads ''{'' = None" by (simp add: rejecting_loads_def)
  show ?thesis
    using C2_tool_decode_error [of rejecting_loads, OF h] h
    by (simp add: error_response_def)
qed

subsection \<open>C3: missing required parameters\<close>

text \<open>
  Claim C3. For a tool registered through \<^verbatim>\<open>add\<close> from a function whose required
  parameters (those without default value, in declared order) are \<open>R\<close>, and a
  \<^verbatim>\<open>tools/call\<close> request whose argument mapping omits some of them, the answer is the
  error \<open>-32602\<close> whose data lists exactly the omitted names, joined in declared order;
  when the arguments have all of \<open>R\<close>, the tool is called with the arguments as they
  are and no parameter error is produced. The arguments are a dictionary of JSON values,
  given or defaulted. The responses are written out: the error with its code, message and
  data, the data being the omitted names with a comma and a space between them; and, when
  nothing is omitted, the answer that \<^verbatim>\<open>run\<close> makes of each outcome of the call.
\<close>

theorem C3_missing_required_parameters:
  assumes "read_request json_loads request_json = Inr (PDict req)"
    and "dict_get req ''jsonrpc'' PNone = PStr ''2.0''"
    and "dict_get req ''method'' PNone = PStr ''tools/call''"
    and "dict_get req ''params'' (PDict []) = PDict ps"
    and "dict_get ps ''name'' PNone = PStr name" and "name \<noteq> []"
    and "dict_get ps ''arguments'' (PDict []) = PDict arguments"
    and "unserializable (PDict arguments) = None"
    and "make_tool_info tool_info_dict func = Inr info"
    and "map_of (tools self) name = Some info"
  shows "(omitted (required_of func) arguments \<noteq> [] \<longrightarrow>
            run json_loads self request_json =
              (PDict ([(''jsonrpc'', PStr ''2.0''),
                       (''error'', PDict [(''code'', PInt (- 32602)),
                          (''message'', PStr ''Invalid params''),
                          (''data'', PStr (''Missing required parameters: ''
                             @ hd (omitted (required_of func) arguments)
                             @ concat (map (\<lambda>n. '', '' @ n)
                                 (tl (omitted (required_of func) arguments)))))])]
                      @ (if dict_get req ''id'' PNone = PNone then []
                         else [(''id'', dict_get req ''id'' PNone)])),
               self))
       \<and> (omitted (required_of func) arguments = [] \<longrightarrow>
            run json_loads self request_json =
              (case call func arguments of
                 Inl (JSONDecodeError m) \<Rightarrow>
                   PDict [(''jsonrpc'', PStr ''2.0''),
                          (''error'', PDict [(''code'', PInt (- 32700)),
                             (''message'', PStr ''Parse error''),
                             (''data'', PStr ''Invalid JSON'')])]
               | Inl (Exception m) \<Rightarrow>
                   PDict ([(''jsonrpc'', PStr ''2.0''),
                           (''error'', PDict [(''code'', PInt (- 32603)),
                              (''message'', PStr ''Internal error''),
                              (''data'', PStr (''An error occurred during tool execution: '' @ m))])]
                          @ (if dict_get req ''id'' PNone = PNone then []
                             else [(''id'', dict_get req ''id'' PNone)]))
               | Inr result \<Rightarrow>
                  (case unserializable result of
                     None \<Rightarrow>
                       PDict ([(''jsonrpc'', PStr ''2.0''),
                               (''result'', PDict [(''content'',
                                  PList [PDict [(''type'', PStr ''text''),
                                                (''text'', PStr (py_str result))]])])]
                              @ (if dict_get req ''id'' PNone = PNone then []
                                 else [(''id'', dict_get req ''id'' PNone)]))
                   | Some c \<Rightarrow>
                       PDict ([(''jsonrpc'', PStr ''2.0''),
                               (''error'', PDict [(''code'', PInt (- 32603)),
                                  (''message'', PStr ''Internal error''),
                                  (''data'', PStr (''An error occurred during tool execution: ''
                                     @ ''Object of type '' @ c
                                     @ '' is not JSON serializable''))])]
                              @ (if dict_get req ''id'' PNone = PNone then []
                                 else [(''id'', dict_get req ''id'' PNone)]))),
               self)
            \<and> error_code (fst (run json_loads self request_json)) \<noteq> Some (PInt (- 32602)))"
proof -
  let ?rid = "dict_get req ''id'' PNone"
  let ?S = "omitted (required_of func) arguments"
  have run_eq: "run json_loads self request_json =
     (case tools_call self ?rid (PDict ps) of
        Inl e \<Rightarrow> (handle_exception ?rid e, self)
      | Inr response \<Rightarrow> (response, self))"
    using assms(3,4) by (simp add: run_dispatch [OF assms(1,2)] dispatch_def split: sum.splits)
  note call_eq = tools_call_found [OF assms(5,6,7,10,8), of ?rid,
      unfolded make_tool_info_fields(1,2) [OF assms(9)]]
  show ?thesis
  proof (intro conjI impI)
    assume missing: "?S \<noteq> []"
    then show "run json_loads self request_json =
              (PDict ([(''jsonrpc'', PStr ''2.0''),
                       (''error'', PDict [(''code'', PInt (- 32602)),
                          (''message'', PStr ''Invalid params''),
                          (''data'', PStr (''Missing required parameters: ''
                             @ hd ?S @ concat (map (\<lambda>n. '', '' @ n) (tl ?S))))])]
                      @ (if ?rid = PNone then [] else [(''id'', ?rid)])),
               self)"
      unfolding run_eq call_eq
      by (simp add: error_response_def join_concat)
  next
    assume complete: "?S = []"
    have log: "log_result result = (case unserializable result of None \<Rightarrow> None
        | Some c \<Rightarrow> Some (Exception (''Object of type '' @ c @ '' is not JSON serializable'')))"
      for result
      by (cases result) (simp_all add: log_result_def json_dumps_def)
    from complete show "run json_loads self request_json =
              (case call func arguments of
                 Inl (JSONDecodeError m) \<Rightarrow>
                   PDict [(''jsonrpc'', PStr ''2.0''),
                          (''error'', PDict [(''code'', PInt (- 32700)),
                             (''message'', PStr ''Parse error''),
                             (''data'', PStr ''Invalid JSON'')])]
               | Inl (Exception m) \<Rightarrow>
                   PDict ([(''jsonrpc'', PStr ''2.0''),
                           (''error'', PDict [(''code'', PInt (- 32603)),
                              (''message'', PStr ''Internal error''),
                              (''data'', PStr (''An error occurred during tool execution: '' @ m))])]
                          @ (if ?rid = PNone then [] else [(''id'', ?rid)]))
               | Inr result \<Rightarrow>
                  (case unserializable result of
                     None \<Rightarrow>
                       PDict ([(''jsonrpc'', PStr ''2.0''),
                               (''result'', PDict [(''content'',
                                  PList [PDict [(''type'', PStr ''text''),
                                                (''text'', PStr (py_str result))]])])]
                              @ (if ?rid = PNone then [] else [(''id'', ?rid)]))
                   | Some c \<Rightarrow>
                       PDict ([(''jsonrpc'', PStr ''2.0''),
                               (''error'', PDict [(''code'', PInt (- 32603)),
                                  (''message'', PStr ''Internal error''),
                                  (''data'', PStr (''An error occurred during tool execution: ''
                                     @ ''Object of type '' @ c
                                     @ '' is not JSON serializable''))])]
                              @ (if ?rid = PNone then [] else [(''id'', ?rid)]))),
               self)"
      unfolding run_eq call_eq
      by (auto simp: log handle_exception_def error_response_def success_response_def
            tool_response_def split: sum.splits option.splits pyexc.splits)
    from complete show "error_code (fst (run json_loads self request_json)) \<noteq> Some (PInt (- 32602))"
      unfolding run_eq call_eq
      by (auto simp: error_code_handle_exception error_code_success
               split: sum.splits option.splits pyexc.splits)
  qed
qed

theorem C3_missing_required_parameters_witness:
  "required_of add_func = [''x'', ''y'']
   \<and> run rejecting_loads add_server
        (envelope ''2.0'' ''tools/call'' (tools_call_params (PStr ''add'') []) (PInt 1))
      = (PDict [(''jsonrpc'', PStr ''2.0''),
                (''error'', PDict [(''code'', PInt (- 32602)), (''message'', PStr ''Invalid params''),
                                   (''data'', PStr ''Missing required parameters: x, y'')]),
                (''id'', PInt 1)], add_server)
   \<and> run rejecting_loads add_server
        (envelope ''2.0'' ''tools/call'' (tools_call_params (PStr ''add'') [(''x'', PInt 10)]) (PInt 1))
      = (PDict [(''jsonrpc'', PStr ''2.0''),
                (''error'', PDict [(''code'', PInt (- 32602)), (''message'', PStr ''Invalid params''),
                                   (''data'', PStr ''Missing required parameters: y'')]),
                (''id'', PInt 1)], add_server)
   \<and> run rejecting_loads add_server
        (envelope ''2.0'' ''tools/call''
           (tools_call_params (PStr ''add'') [(''x'', PInt 10), (''y'', PInt 25)]) (PInt 1))
      = (PDict [(''jsonrpc'', PStr ''2.0''),
                (''result'', PDict [(''content'',
                   PList [PDict [(''type'', PStr ''text''), (''text'', PStr ''35'')]])]),
                (''id'', PInt 1)], add_server)"
proof -
  let ?d = "[(''Title'', PStr ''Add''), (''Description'', PStr ''Add two numbers'')]"
  let ?info = "\<lparr>title = PStr ''Add'', description = PStr ''Add two numbers'',
        tool_function = call add_func, required_params = [''x'', ''y''],
        properties =
          [(''x'', PDict [(''type'', PStr ''integer''), (''description'', PStr ''First number'')]),
           (''y'', PDict [(''type'', PStr ''integer''), (''description'', PStr ''Second number'')])]\<rparr>"
  have made: "make_tool_info ?d add_func = Inr ?info"
    by (simp add: make_tool_info_add_func dict_get_def)
  have found: "map_of (tools add_server) ''add'' = Some ?info"
    by (simp add: tools_add_server)
  have name: "''add'' \<noteq> []" by simp
  have req: "required_of add_func = [''x'', ''y'']" by code_simp
  { fix arguments :: "(string \<times> pyval) list"
    assume ser: "unserializable (PDict arguments) = None"
    let ?ps = "[(''name'', PStr ''add''), (''arguments'', PDict arguments)]"
    let ?req = "[(''jsonrpc'', PStr ''2.0''), (''method'', PStr ''tools/call''),
                 (''params'', PDict ?ps), (''id'', PInt 1)]"
    have h1: "read_request rejecting_loads
                (envelope ''2.0'' ''tools/call'' (tools_call_params (PStr ''add'') arguments) (PInt 1))
              = Inr (PDict ?req)"
      using ser by (simp add: read_envelope tools_call_params_def)
    have h2: "dict_get ?req ''jsonrpc'' PNone = PStr ''2.0''" by (simp add: dict_get_def)
    have h3: "dict_get ?req ''method'' PNone = PStr ''tools/call''" by (simp add: dict_get_def)
    have h4: "dict_get ?req ''params'' (PDict []) = PDict ?ps" by (simp add: dict_get_def)
    have h5: "dict_get ?ps ''name'' PNone = PStr ''add''" by (simp add: dict_get_def)
    have h7: "dict_get ?ps ''arguments'' (PDict []) = PDict arguments" by (simp add: dict_get_def)
    have h8: "dict_get ?req ''id'' PNone = PInt 1" by (simp add: dict_get_def)
    note C3_missing_required_parameters [OF h1 h2 h3 h4 h5 name h7 ser made found, unfolded h8 req]
  } note inst = this
  have m0: "omitted [''x'', ''y''] [] = [''x'', ''y'']" by code_simp
  have m1: "omitted [''x'', ''y''] [(''x'', PInt 10)] = [''y'']" by code_simp
  have m2: "omitted [''x'', ''y''] [(''x'', PInt 10), (''y'', PInt 25)] = []" by code_simp
  have called: "call add_func [(''x'', PInt 10), (''y'', PInt 25)] = Inr (PInt 35)" by code_simp
  have shown: "py_str (PInt 35) = ''35''" by code_simp
  have s0: "unserializable (PDict []) = None" by simp
  have s1: "unserializable (PDict [(''x'', PInt 10)]) = None" by simp
  have s2: "unserializable (PDict [(''x'', PInt 10), (''y'', PInt 25)]) = None" by simp
  have r0: "run rejecting_loads add_server
        (envelope ''2.0'' ''tools/call'' (tools_call_params (PStr ''add'') []) (PInt 1))
      = (PDict [(''jsonrpc'', PStr ''2.0''),
                (''error'', PDict [(''code'', PInt (- 32602)), (''message'', PStr ''Invalid params''),
                                   (''data'', PStr ''Missing required parameters: x, y'')]),
                (''id'', PInt 1)], add_server)"
    using inst [OF s0] by (simp add: m0)
  have r1: "run rejecting_loads add_server
        (envelope ''2.0'' ''tools/call'' (tools_call_params (PStr ''add'') [(''x'', PInt 10)]) (PInt 1))
      = (PDict [(''jsonrpc'', PStr ''2.0''),
                (''error'', PDict [(''code'', PInt (- 32602)), (''message'', PStr ''Invalid params''),
                                   (''data'', PStr ''Missing required parameters: y'')]),
                (''id'', PInt 1)], add_server)"
    using inst [OF s1] by (simp add: m1)
  have r2: "run rejecting_loads add_server
        (envelope ''2.0'' ''tools/call''
           (tools_call_params (PStr ''add'') [(''x'', PInt 10), (''y'', PInt 25)]) (PInt 1))
      = (PDict [(''jsonrpc'', PStr ''2.0''),
                (''result'', PDict [(''content'',
                   PList [PDict [(''type'', PStr ''text''), (''text'', PStr ''35'')]])]),
                (''id'', PInt 1)], add_server)"
    using inst [OF s2] by (simp add: m2 called shown)
  show ?thesis
    using req r0 r1 r2 by simp
qed

subsection \<open>C4: the result of a call, wrapped and raw\<close>

text \<open>
  Claim C4 says that every registered tool called with arguments that pass the
  required-parameter check answers with success. A tool that raises is answered with an
  error instead, as \<^verbatim>\<open>test_tool_execution_exception\<close> expects. Amended claim, C4: for
  every registered tool and argument mapping that pass the required-parameter check, when
  the call of the tool returns a value that \<^verbatim>\<open>json.dumps\<close> can serialise, the answer to
  \<^verbatim>\<open>tools/call\<close> is success with the result
  \<open>{content: [{type: "text", text: str(value)}]}\<close>, and the answer to the direct call of
  the same tool is success with the value itself, without wrapper; \<^verbatim>\<open>add\<close> called
  through \<^verbatim>\<open>tools/call\<close> with 10 and 25 gives the text \<open>35\<close>, and called directly with
  2 and 3 gives the result 5.
\<close>

theorem C4_result_shapes:
  assumes "map_of (tools self) name = Some info" and "name \<noteq> []"
    and "PStr name \<notin> set protocol_methods"
    and "unserializable (PDict arguments) = None"
    and "missing_params (required_params info) (PDict arguments) = Inr []"
    and "tool_function info arguments = Inr result"
    and "unserializable result = None"
    and "read_request json_loads call_json = Inr (PDict call_req)"
    and "dict_get call_req ''jsonrpc'' PNone = PStr ''2.0''"
    and "dict_get call_req ''method'' PNone = PStr ''tools/call''"
    and "dict_get call_req ''params'' (PDict []) = PDict ps"
    and "dict_get ps ''name'' PNone = PStr name"
    and "dict_get ps ''arguments'' (PDict []) = PDict arguments"
    and "read_request json_loads direct_json = Inr (PDict direct_req)"
    and "dict_get direct_req ''jsonrpc'' PNone = PStr ''2.0''"
    and "dict_get direct_req ''method'' PNone = PStr name"
    and "dict_get direct_req ''params'' (PDict []) = PDict arguments"
  shows "fst (run json_loads self call_json) =
           success_response (dict_get call_req ''id'' PNone)
             (PDict [(''content'',
                PList [PDict [(''type'', PStr ''text''), (''text'', PStr (py_str result))]])])
       \<and> fst (run json_loads self direct_json) =
           success_response (dict_get direct_req ''id'' PNone) result"
proof
  have no_missing: "omitted (required_params info) arguments = []"
    using assms(5) by (simp add: missing_params_dict)
  have logged: "log_result result = None"
    using assms(7) by (simp add: log_result_def json_dumps_serializable)
  have "tools_call self (dict_get call_req ''id'' PNone) (PDict ps) =
          Inr (success_response (dict_get call_req ''id'' PNone) (tool_response result))"
    using no_missing logged assms(6)
    by (simp add: tools_call_found [OF assms(12) assms(2) assms(13) assms(1) assms(4)])
  then show "fst (run json_loads self call_json) =
           success_response (dict_get call_req ''id'' PNone)
             (PDict [(''content'',
                PList [PDict [(''type'', PStr ''text''), (''text'', PStr (py_str result))]])])"
    using assms(10,11) by (simp add: run_dispatch [OF assms(8,9)] dispatch_def tool_response_def)
next
  have no_missing: "omitted (required_params info) arguments = []"
    using assms(5) by (simp add: missing_params_dict)
  have logged: "log_result result = None"
    using assms(7) by (simp add: log_result_def json_dumps_serializable)
  have found: "map_of (tools (auto_initialize self)) name = Some info"
    using assms(1) by (simp add: tools_auto_initialize)
  have "direct_call (auto_initialize self) (dict_get direct_req ''id'' PNone) (PStr name)
          (PDict arguments) =
          Inr (success_response (dict_get direct_req ''id'' PNone) result)"
    using no_missing logged assms(6)
    by (simp add: direct_call_found [OF found assms(4)])
  moreover have "truthy (PStr name)" using assms(2) by simp
  ultimately show "fst (run json_loads self direct_json) =
           success_response (dict_get direct_req ''id'' PNone) result"
    using assms(3,16,17) by (simp add: run_dispatch [OF assms(14,15)] dispatch_direct)
qed

theorem C4_result_shapes_witness:
  "fst (run rejecting_loads add_server
          (envelope ''2.0'' ''tools/call''
             (tools_call_params (PStr ''add'') [(''x'', PInt 10), (''y'', PInt 25)]) (PStr ''call'')))
     = PDict [(''jsonrpc'', PStr ''2.0''),
              (''result'', PDict [(''content'',
                 PList [PDict [(''type'', PStr ''text''), (''text'', PStr ''35'')]])]),
              (''id'', PStr ''call'')]
   \<and> fst (run rejecting_loads add_server
          (envelope ''2.0'' ''add'' (PDict [(''x'', PInt 2), (''y'', PInt 3)]) (PInt 9)))
     = PDict [(''jsonrpc'', PStr ''2.0''), (''result'', PInt 5), (''id'', PInt 9)]"
proof -
  let ?info = "\<lparr>title = PStr ''Add'', description = PStr ''Add two numbers'',
        tool_function = call add_func, required_params = [''x'', ''y''],
        properties =
          [(''x'', PDict [(''type'', PStr ''integer''), (''description'', PStr ''First number'')]),
           (''y'', PDict [(''type'', PStr ''integer''), (''description'', PStr ''Second number'')])]\<rparr>"
  have found: "map_of (tools add_server) ''add'' = Some ?info"
    by (simp add: tools_add_server)
  have name: "''add'' \<noteq> []" by simp
  have direct: "PStr ''add'' \<notin> set protocol_methods" by (simp add: protocol_methods_def)
  { fix a b :: int and id1 id2 :: pyval
    assume ids: "unserializable id1 = None" "unserializable id2 = None"
    let ?args = "[(''x'', PInt a), (''y'', PInt b)]"
    let ?ps = "[(''name'', PStr ''add''), (''arguments'', PDict ?args)]"
    let ?call = "[(''jsonrpc'', PStr ''2.0''), (''method'', PStr ''tools/call''),
                  (''params'', PDict ?ps), (''id'', id1)]"
    let ?direct = "[(''jsonrpc'', PStr ''2.0''), (''method'', PStr ''add''),
                    (''params'', PDict ?args), (''id'', id2)]"
    have ser: "unserializable (PDict ?args) = None" by simp
    have check: "missing_params (required_params ?info) (PDict ?args) = Inr []"
      by simp
    have called: "tool_function ?info ?args = Inr (PInt (a + b))"
      by (simp add: add_func_def py_def_def call_def_def add_body_def py_add_def)
    have res: "unserializable (PInt (a + b)) = None" by simp
    have c1: "read_request rejecting_loads
                (envelope ''2.0'' ''tools/call'' (tools_call_params (PStr ''add'') ?args) id1)
              = Inr (PDict ?call)"
      using ids by (simp add: read_envelope tools_call_params_def)
    have c2: "dict_get ?call ''jsonrpc'' PNone = PStr ''2.0''" by (simp add: dict_get_def)
    have c3: "dict_get ?call ''method'' PNone = PStr ''tools/call''" by (simp add: dict_get_def)
    have c4: "dict_get ?call ''params'' (PDict []) = PDict ?ps" by (simp add: dict_get_def)
    have c5: "dict_get ?ps ''name'' PNone = PStr ''add''" by (simp add: dict_get_def)
    have c6: "dict_get ?ps ''arguments'' (PDict []) = PDict ?args" by (simp add: dict_get_def)
    have c7: "dict_get ?call ''id'' PNone = id1" by (simp add: dict_get_def)
    have d1: "read_request rejecting_loads (envelope ''2.0'' ''add'' (PDict ?args) id2)
              = Inr (PDict ?direct)"
      using ids by (simp add: read_envelope)
    have d2: "dict_get ?direct ''jsonrpc'' PNone = PStr ''2.0''" by (simp add: dict_get_def)
    have d3: "dict_get ?direct ''method'' PNone = PStr ''add''" by (simp add: dict_get_def)
    have d4: "dict_get ?direct ''params'' (PDict []) = PDict ?args" by (simp add: dict_get_def)
    have d5: "dict_get ?direct ''id'' PNone = id2" by (simp add: dict_get_def)
    note C4_result_shapes [OF found name direct ser check called res c1 c2 c3 c4 c5 c6 d1 d2 d3 d4,
        unfolded c7 d5]
  } note inst = this
  have t: "py_str (PInt (10 + 25)) = ''35''" by code_simp
  have i1: "unserializable (PStr ''call'') = None" "unserializable (PInt 9) = None" by simp_all
  show ?thesis
    using inst [of "PStr ''call''" "PInt 9" 10 25] inst [of "PStr ''call''" "PInt 9" 2 3] t
    by (simp add: success_response_def)
qed

text \<open>
  The counterexample to C4 as stated: \<^verbatim>\<open>failing_func\<close> has no parameters, so the empty
  arguments pass the required-parameter check, and \<^verbatim>\<open>tools/call\<close> answers with the
  error \<open>-32603\<close>.
\<close>

theorem C4_counterexample:
  "(case make_tool_info [(''Title'', PStr ''Failing Function''),
                         (''Description'', PStr ''Function that fails'')] failing_func of
      Inl e \<Rightarrow> False
    | Inr info \<Rightarrow> missing_params (required_params info) (PDict []) = Inr [])
   \<and> fst (run rejecting_loads (server_with ''Failing Function'' ''Function that fails'' failing_func)
          (envelope ''2.0'' ''tools/call'' (tools_call_params (PStr ''failing_func'') []) (PInt 1)))
     = PDict [(''jsonrpc'', PStr ''2.0''),
              (''error'', PDict [(''code'', PInt (- 32603)), (''message'', PStr ''Internal error''),
                 (''data'', PStr ''An error occurred during tool execution: Something went wrong!'')]),
              (''id'', PInt 1)]"
  by code_simp

subsection \<open>C5: the id of the response\<close>




subsection \<open>C6: textual annotations and the totality of the inference\<close>

text \<open>
  Claim C6. For a parameter whose annotation is a string, the inferred type is found by
  case-insensitive substring matching against the tokens \<open>int\<close>, \<open>float\<close>/\<open>number\<close>,
  \<open>bool\<close>, \<open>list\<close>/\<open>array\<close>, \<open>dict\<close>/\<open>object\<close> in that priority order; a parameter
  with no annotation, or with an annotation that matches no rule, gets \<open>string\<close>; and the
  inference always returns one of the six schema types. The source does all of this for
  the annotations that can be hashed (\<open>infer_hashable_annotation\<close>), and its comments
  (\<^verbatim>\<open># Default to string\<close>, \<^verbatim>\<open># Default fallback\<close>) and the tests
  \<^verbatim>\<open>test_unknown_type_defaults_to_string\<close> and \<^verbatim>\<open>test_complex_typing_annotations\<close>
  show that a fallback is meant for everything else. But the test
  \<^verbatim>\<open>annotation in type_mapping\<close> hashes the annotation, and for an annotation that
  cannot be hashed, such as the list \<^verbatim>\<open>[int]\<close>, it raises \<^verbatim>\<open>TypeError\<close>: the
  inference returns no type, the decorator \<^verbatim>\<open>add\<close> raises, and the tool is not
  registered. The message is worded as CPython 3.13 and earlier word it.
\<close>

theorem C6_unhashable_annotation_raises:
  "infer_param_type_from_annotation (Unhashable ''list'')
     = Inl (Exception (''unhashable type: '' @ [CHR 0x27] @ ''list'' @ [CHR 0x27]))
   \<and> add test_server
        [(''Title'', PStr ''First''), (''Description'', PStr ''First item of a list'')] first_func
     = Inl (Exception (''unhashable type: '' @ [CHR 0x27] @ ''list'' @ [CHR 0x27]))
   \<and> list_tools (decorated test_server
        [(''Title'', PStr ''First''), (''Description'', PStr ''First item of a list'')] first_func)
     = []"
proof -
  have raised: "infer_param_type_from_annotation (Unhashable ''list'')
     = Inl (Exception (''unhashable type: '' @ [CHR 0x27] @ ''list'' @ [CHR 0x27]))"
    by (simp add: infer_param_type_from_annotation_def quoted_def)
  then have "add test_server
        [(''Title'', PStr ''First''), (''Description'', PStr ''First item of a list'')] first_func
     = Inl (Exception (''unhashable type: '' @ [CHR 0x27] @ ''list'' @ [CHR 0x27]))"
    by (simp add: add_def make_tool_info_def first_func_def py_def_def)
  with raised show ?thesis
    by (simp add: decorated_def list_tools_def test_server_def MCP_init_def)
qed

subsection \<open>C7: the data member of an error\<close>

text \<open>
  Claim C7. In an error envelope built by \<^verbatim>\<open>_error_response\<close> the member \<open>data\<close> is
  there exactly when the data value given is truthy: a falsy value that was given (the
  empty string, \<open>None\<close>) is dropped like an absent one, and a truthy value stands
  unchanged under \<open>error.data\<close>.
\<close>

theorem C7_error_data_iff_truthy:
  "error_data (error_response request_id code message data)
     = (if truthy data then Some data else None)
   \<and> response_error (error_response request_id code message data)
     = Some ([(''code'', PInt code), (''message'', PStr message)]
             @ (if truthy data then [(''data'', data)] else []))
   \<and> error_data (error_response request_id code message (PStr [])) = None
   \<and> error_data (error_response request_id code message PNone) = None"
  by (simp add: error_data_def error_response_def response_error_def)

theorem C7_error_data_iff_truthy_witness:
  "error_data (error_response (PInt 1) (- 32600) ''Invalid Request'' (PStr ''Missing method''))
     = Some (PStr ''Missing method'')
   \<and> error_data (error_response (PInt 1) (- 32600) ''Invalid Request'' (PInt 0)) = None"
  using C7_error_data_iff_truthy [of "PInt 1" "- 32600" "''Invalid Request''" "PStr ''Missing method''"]
    C7_error_data_iff_truthy [of "PInt 1" "- 32600" "''Invalid Request''" "PInt 0"]
  by simp

subsection \<open>C8: a keyword that is no parameter\<close>




subsection \<open>C9: a tool name that is present but falsy\<close>

text \<open>
  Claim C9. A \<^verbatim>\<open>tools/call\<close> request whose \<open>params\<close> carry a \<open>name\<close> that is falsy (the
  empty string, \<open>null\<close>, and so on) is answered with \<open>-32602\<close>, \<open>Invalid params\<close>,
  \<open>Missing tool name in tools/call\<close>, as a request without \<open>name\<close> is, and the registry
  is not consulted. The hypothesis \<open>\<not> truthy (dict_get ps ''name'' PNone)\<close> holds for a
  missing name and for a falsy one alike; the response does not depend on the tools of
  the server, and the server is left as it was.
\<close>

theorem C9_falsy_tool_name:
  assumes "read_request json_loads request_json = Inr (PDict req)"
    and "dict_get req ''jsonrpc'' PNone = PStr ''2.0''"
    and "dict_get req ''method'' PNone = PStr ''tools/call''"
    and "dict_get req ''params'' (PDict []) = PDict ps"
    and "\<not> truthy (dict_get ps ''name'' PNone)"
  shows "run json_loads self request_json =
     (error_response (dict_get req ''id'' PNone) (- 32602) ''Invalid params''
        (PStr ''Missing tool name in tools/call''), self)"
  using assms(3-5)
  by (simp add: run_dispatch [OF assms(1,2)] dispatch_def tools_call_def Let_def)

theorem C9_falsy_tool_name_witness:
  "map_of [(''name'', PStr []), (''arguments'', PDict [])] ''name'' = Some (PStr [])
   \<and> \<not> truthy (PStr [])
   \<and> run rejecting_loads add_server
        (envelope ''2.0'' ''tools/call'' (tools_call_params (PStr []) []) (PInt 1))
      = (PDict [(''jsonrpc'', PStr ''2.0''),
                (''error'', PDict [(''code'', PInt (- 32602)), (''message'', PStr ''Invalid params''),
                                   (''data'', PStr ''Missing tool name in tools/call'')]),
                (''id'', PInt 1)], add_server)"
proof -
  let ?req = "[(''jsonrpc'', PStr ''2.0''), (''method'', PStr ''tools/call''),
               (''params'', PDict [(''name'', PStr []), (''arguments'', PDict [])]), (''id'', PInt 1)]"
  have h1: "read_request rejecting_loads
              (envelope ''2.0'' ''tools/call'' (tools_call_params (PStr []) []) (PInt 1))
            = Inr (PDict ?req)"
    by code_simp
  have h2: "dict_get ?req ''jsonrpc'' PNone = PStr ''2.0''" by code_simp
  have h3: "dict_get ?req ''method'' PNone = PStr ''tools/call''" by code_simp
  have h4: "dict_get ?req ''params'' (PDict []) = PDict [(''name'', PStr []), (''arguments'', PDict [])]"
    by code_simp
  have h5: "\<not> truthy (dict_get [(''name'', PStr []), (''arguments'', PDict [])] ''name'' PNone)"
    by code_simp
  have h6: "dict_get ?req ''id'' PNone = PInt 1" by code_simp
  show ?thesis
    using C9_falsy_tool_name [OF h1 h2 h3 h4 h5, of add_server]
    by (simp add: h6 error_response_def)
qed

subsection \<open>C10: registering a name again\<close>

text \<open>
  Claim C10. Registering a tool under a name that is registered already replaces the
  stored record (the last registration wins) and keeps the name where it stood:
  \<^verbatim>\<open>list_tools\<close> gives the names as before, so the number of tools is unchanged, and
  the result of \<^verbatim>\<open>tools/list\<close> shows the tool at the position of its first
  registration with the new record's description, properties and required parameters.
  Here \<open>i\<close> is the position of the name in the registry; the response to
  \<^verbatim>\<open>tools/list\<close> is written out, one entry for each tool of the registry in which the
  record at \<open>i\<close> has been replaced.
\<close>

theorem C10_reregistration_keeps_position:
  assumes "i < length (tools self)"
    and "fst (tools self ! i) = tool_name"
    and "\<forall>j<i. fst (tools self ! j) \<noteq> tool_name"
    and "read_request json_loads request_json = Inr (PDict req)"
    and "dict_get req ''jsonrpc'' PNone = PStr ''2.0''"
    and "dict_get req ''method'' PNone = PStr ''tools/list''"
  shows "list_tools (register_tool self tool_name info) = map fst (tools self)
    \<and> length (tools (register_tool self tool_name info)) = length (tools self)
    \<and> map_of (tools (register_tool self tool_name info)) tool_name = Some info
    \<and> fst (run json_loads (register_tool self tool_name info) request_json)
        = PDict ([(''jsonrpc'', PStr ''2.0''),
                  (''result'', PDict [(''tools'', PList
                     (map (\<lambda>entry.
                        PDict [(''name'', PStr (fst entry)),
                               (''description'', description (snd entry)),
                               (''inputSchema'',
                                  PDict [(''type'', PStr ''object''),
                                         (''properties'', PDict (properties (snd entry))),
                                         (''required'',
                                            PList (map PStr (required_params (snd entry))))])])
                       ((tools self)[i := (tool_name, info)])))])]
                 @ (if dict_get req ''id'' PNone = PNone then []
                    else [(''id'', dict_get req ''id'' PNone)]))"
proof -
  have upd: "dict_set (tools self) tool_name info = (tools self)[i := (tool_name, info)]"
    using assms(1-3) by (rule dict_set_update)
  have keys: "list_tools (register_tool self tool_name info) = map fst (tools self)"
    using assms(1,2)
    by (simp add: list_tools_def register_tool_def upd map_update list_update_same_conv)
  have entries: "tools (register_tool self tool_name info) = (tools self)[i := (tool_name, info)]"
    by (simp add: register_tool_def upd)
  have "fst (run json_loads (register_tool self tool_name info) request_json)
        = success_response (dict_get req ''id'' PNone)
            (PDict [(''tools'', PList (tools_list (register_tool self tool_name info)))])"
    using assms(6) by (simp add: run_dispatch [OF assms(4,5)] dispatch_def)
  moreover have "tool_schema = (\<lambda>entry.
                        PDict [(''name'', PStr (fst entry)),
                               (''description'', description (snd entry)),
                               (''inputSchema'',
                                  PDict [(''type'', PStr ''object''),
                                         (''properties'', PDict (properties (snd entry))),
                                         (''required'',
                                            PList (map PStr (required_params (snd entry))))])])"
    by (rule ext) (simp add: tool_schema_def)
  moreover have "map_of (tools (register_tool self tool_name info)) tool_name = Some info"
    by (simp add: register_tool_def dict_set_lookup)
  ultimately show ?thesis
    using keys
    by (simp add: entries tools_list_def success_response_def)
qed

theorem C10_reregistration_keeps_position_witness:
  "list_tools two_tool_server = [''add'', ''failing_func'']
   \<and> list_tools (decorated two_tool_server
         [(''Title'', PStr ''Sum''), (''Description'', PStr ''Sum of two integers'')] add_func)
       = [''add'', ''failing_func'']
   \<and> fst (run rejecting_loads
         (decorated two_tool_server
            [(''Title'', PStr ''Sum''), (''Description'', PStr ''Sum of two integers'')] add_func)
         (envelope ''2.0'' ''tools/list'' (PDict []) (PStr ''list'')))
       = PDict [(''jsonrpc'', PStr ''2.0''),
           (''result'', PDict [(''tools'', PList
              [PDict [(''name'', PStr ''add''),
                      (''description'', PStr ''Sum of two integers''),
                      (''inputSchema'',
                         PDict [(''type'', PStr ''object''),
                                (''properties'', PDict
                                   [(''x'', PDict [(''type'', PStr ''integer''),
                                                  (''description'', PStr ''First number'')]),
                                    (''y'', PDict [(''type'', PStr ''integer''),
                                                  (''description'', PStr ''Second number'')])]),
                                (''required'', PList [PStr ''x'', PStr ''y''])])],
               PDict [(''name'', PStr ''failing_func''),
                      (''description'', PStr ''Function that fails''),
                      (''inputSchema'',
                         PDict [(''type'', PStr ''object''),
                                (''properties'', PDict []),
                                (''required'', PList [])])]])]),
           (''id'', PStr ''list'')]"
proof -
  let ?req = "[(''jsonrpc'', PStr ''2.0''), (''method'', PStr ''tools/list''),
               (''params'', PDict []), (''id'', PStr ''list'')]"
  have h1: "0 < length (tools two_tool_server)" by (simp add: tools_two_tool_server)
  have h2: "fst (tools two_tool_server ! 0) = ''add''" by (simp add: tools_two_tool_server)
  have h3: "\<forall>j<0. fst (tools two_tool_server ! j) \<noteq> ''add''" by simp
  have h4: "read_request rejecting_loads (envelope ''2.0'' ''tools/list'' (PDict []) (PStr ''list''))
            = Inr (PDict ?req)"
    by (simp add: read_envelope)
  have h5: "dict_get ?req ''jsonrpc'' PNone = PStr ''2.0''" by (simp add: dict_get_def)
  have h6: "dict_get ?req ''method'' PNone = PStr ''tools/list''" by (simp add: dict_get_def)
  have h7: "dict_get ?req ''id'' PNone = PStr ''list''" by (simp add: dict_get_def)
  have names: "list_tools two_tool_server = [''add'', ''failing_func'']"
    by (simp add: list_tools_def tools_two_tool_server)
  show ?thesis
    using C10_reregistration_keeps_position [OF h1 h2 h3 h4 h5 h6, unfolded h7] names
    by (simp add: redecorated_add tools_two_tool_server)
qed

end
